theory Spec2Isabelle
  imports Complex_Main "HOL-Library.Sublist"
begin

section \<open>Python values and exceptions\<close>

text \<open>
  The module under verification is \<^verbatim>\<open>backend/app/services/gpt_service.py\<close>: the class
  \<^verbatim>\<open>GPTService\<close>, which builds a prompt, asks a chat model for a reply and parses the
  reply text into book recommendations, falling back to canned data on any failure.

  Python \<^verbatim>\<open>str\<close> values are modelled as Isabelle strings holding the UTF-8 bytes of the
  text. Every character the module searches for, counts or replaces is ASCII, and an
  ASCII byte never occurs inside a multi-byte UTF-8 sequence, so searching, counting and
  replacing bytes agrees with Python's work on code points.

  Every exception the module can raise is a value of \<open>exn\<close>; a function that can raise
  returns \<open>exn + 'a\<close>, with \<open>Inl\<close> for the raised exception.
\<close>

datatype exn =
    IndexError
  | AttributeError
  | TypeError
  | JSONDecodeError
  | ValidationError
  | APIError

text \<open>
  A Python \<^verbatim>\<open>float\<close>: the module only stores and passes floats on, it does no arithmetic
  on them. A finite float is modelled by the real number its literal denotes; the
  non-finite values that \<^verbatim>\<open>json.loads\<close> accepts are separate constructors.
\<close>

datatype pyfloat = Finite real | PosInf | NegInf | NaN

text \<open>
  The Python objects \<^verbatim>\<open>json.loads\<close> can return: \<^verbatim>\<open>None\<close>, \<^verbatim>\<open>bool\<close>, \<^verbatim>\<open>int\<close>, \<^verbatim>\<open>float\<close>,
  \<^verbatim>\<open>str\<close>, \<^verbatim>\<open>list\<close> and \<^verbatim>\<open>dict\<close>. A dict is an association list read with \<open>map_of\<close>.
\<close>

datatype pyval =
    PNone
  | PBool bool
  | PInt int
  | PFloat pyfloat
  | PStr string
  | PList "pyval list"
  | PDict "(string \<times> pyval) list"

section \<open>Python's list and string operations\<close>

text \<open>\<^verbatim>\<open>xs[i]\<close>: a negative index counts from the end; out of range raises IndexError.\<close>

definition py_index :: "'a list \<Rightarrow> int \<Rightarrow> exn + 'a" where
  "py_index xs i =
     (let n = int (length xs); k = (if i < 0 then n + i else i)
      in if 0 \<le> k \<and> k < n then Inr (xs ! nat k) else Inl IndexError)"

text \<open>
  A slice bound: a negative bound counts from the end, and every bound is clamped to
  the range \<open>0 .. n\<close>. Slicing never raises.
\<close>

definition py_bound :: "nat \<Rightarrow> int \<Rightarrow> nat" where
  "py_bound n i = (if i < 0 then nat (max 0 (int n + i)) else min n (nat i))"

text \<open>\<^verbatim>\<open>xs[i:j]\<close>, \<^verbatim>\<open>xs[i:]\<close> and \<^verbatim>\<open>xs[:j]\<close>.\<close>

definition py_slice :: "'a list \<Rightarrow> int \<Rightarrow> int \<Rightarrow> 'a list" where
  "py_slice xs i j = drop (py_bound (length xs) i) (take (py_bound (length xs) j) xs)"

definition py_slice_from :: "'a list \<Rightarrow> int \<Rightarrow> 'a list" where
  "py_slice_from xs i = drop (py_bound (length xs) i) xs"

definition py_slice_to :: "'a list \<Rightarrow> int \<Rightarrow> 'a list" where
  "py_slice_to xs j = take (py_bound (length xs) j) xs"

text \<open>\<^verbatim>\<open>sep.join(xs)\<close>.\<close>

fun str_join :: "string \<Rightarrow> string list \<Rightarrow> string" where
  "str_join sep [] = []"
| "str_join sep [x] = x"
| "str_join sep (x # y # ys) = x @ sep @ str_join sep (y # ys)"

text \<open>
  \<^verbatim>\<open>s.find(c)\<close> for a one-character \<open>c\<close>: the index of the first occurrence, or \<open>-1\<close>.
  \<open>find_from c s i\<close> searches \<open>s\<close>, whose first character has index \<open>i\<close>.
\<close>

fun find_from :: "char \<Rightarrow> string \<Rightarrow> int \<Rightarrow> int" where
  "find_from c [] i = - 1"
| "find_from c (x # xs) i = (if x = c then i else find_from c xs (i + 1))"

definition py_find :: "string \<Rightarrow> char \<Rightarrow> int" where
  "py_find s c = find_from c s 0"

text \<open>\<^verbatim>\<open>s.rfind(c)\<close>: the index of the last occurrence, or \<open>-1\<close>.\<close>

definition py_rfind :: "string \<Rightarrow> char \<Rightarrow> int" where
  "py_rfind s c =
     (let k = find_from c (rev s) 0
      in if k = - 1 then - 1 else int (length s) - 1 - k)"

text \<open>\<^verbatim>\<open>s.count(c)\<close> for a one-character \<open>c\<close>.\<close>

definition py_count :: "string \<Rightarrow> char \<Rightarrow> int" where
  "py_count s c = int (length (filter (\<lambda>x. x = c) s))"

text \<open>
  \<^verbatim>\<open>s.replace(old, new)\<close>: every occurrence of \<open>old\<close>, found from the left without
  overlaps, becomes \<open>new\<close>. The module only calls it with a non-empty \<open>old\<close> (for an
  empty \<open>old\<close> Python inserts \<open>new\<close> around every character; this model then leaves the
  text as it is).
\<close>

fun str_replace :: "string \<Rightarrow> string \<Rightarrow> string \<Rightarrow> string" where
  "str_replace old new [] = []"
| "str_replace old new (c # cs) =
     (if old \<noteq> [] \<and> prefix old (c # cs)
      then new @ str_replace old new (drop (length old) (c # cs))
      else c # str_replace old new cs)"

text \<open>
  The characters \<^verbatim>\<open>str.strip()\<close> removes: the 29 code points for which \<^verbatim>\<open>str.isspace()\<close>
  holds (U+0009 to U+000D, U+001C to U+0020, U+0085, U+00A0, U+1680, U+2000 to U+200A,
  U+2028, U+2029, U+202F, U+205F, U+3000), each as its UTF-8 bytes.
\<close>

definition whitespace :: "string list" where
  "whitespace =
     [[CHR 0x09], [CHR 0x0A], [CHR 0x0B], [CHR 0x0C], [CHR 0x0D],
      [CHR 0x1C], [CHR 0x1D], [CHR 0x1E], [CHR 0x1F], [CHR 0x20],
      [CHR 0xC2, CHR 0x85], [CHR 0xC2, CHR 0xA0], [CHR 0xE1, CHR 0x9A, CHR 0x80],
      [CHR 0xE2, CHR 0x80, CHR 0x80], [CHR 0xE2, CHR 0x80, CHR 0x81],
      [CHR 0xE2, CHR 0x80, CHR 0x82], [CHR 0xE2, CHR 0x80, CHR 0x83],
      [CHR 0xE2, CHR 0x80, CHR 0x84], [CHR 0xE2, CHR 0x80, CHR 0x85],
      [CHR 0xE2, CHR 0x80, CHR 0x86], [CHR 0xE2, CHR 0x80, CHR 0x87],
      [CHR 0xE2, CHR 0x80, CHR 0x88], [CHR 0xE2, CHR 0x80, CHR 0x89],
      [CHR 0xE2, CHR 0x80, CHR 0x8A], [CHR 0xE2, CHR 0x80, CHR 0xA8],
      [CHR 0xE2, CHR 0x80, CHR 0xA9], [CHR 0xE2, CHR 0x80, CHR 0xAF],
      [CHR 0xE2, CHR 0x81, CHR 0x9F], [CHR 0xE3, CHR 0x80, CHR 0x80]]"

text \<open>\<^verbatim>\<open>s.lstrip()\<close>, \<^verbatim>\<open>s.rstrip()\<close> and \<^verbatim>\<open>s.strip()\<close>.\<close>

function lstrip :: "string \<Rightarrow> string" where
  "lstrip s =
     (case List.find (\<lambda>w. prefix w s) whitespace of
        None \<Rightarrow> s
      | Some w \<Rightarrow> lstrip (drop (length w) s))"
  by pat_completeness auto
termination
proof (relation "measure length")
  fix s w
  assume "List.find (\<lambda>w. prefix w s) whitespace = Some w"
  then have "w \<in> set whitespace" and "prefix w s"
    by (auto simp: find_Some_iff)
  then have "w \<noteq> []" and "length w \<le> length s"
    by (auto simp: whitespace_def prefix_length_le)
  then show "(drop (length w) s, s) \<in> measure length"
    by (cases w) auto
qed simp

declare lstrip.simps [simp del]

function rstrip :: "string \<Rightarrow> string" where
  "rstrip s =
     (case List.find (\<lambda>w. suffix w s) whitespace of
        None \<Rightarrow> s
      | Some w \<Rightarrow> rstrip (take (length s - length w) s))"
  by pat_completeness auto
termination
proof (relation "measure length")
  fix s w
  assume "List.find (\<lambda>w. suffix w s) whitespace = Some w"
  then have "w \<in> set whitespace" and "suffix w s"
    by (auto simp: find_Some_iff)
  then have "w \<noteq> []" and "length w \<le> length s"
    by (auto simp: whitespace_def suffix_length_le)
  then show "(take (length s - length w) s, s) \<in> measure length"
    by (cases w) auto
qed simp

declare rstrip.simps [simp del]

definition str_strip :: "string \<Rightarrow> string" where
  "str_strip s = rstrip (lstrip s)"

text \<open>
  The code points of a text, each as its UTF-8 bytes: a byte from 0x80 to 0xBF continues
  the code point of the byte in front of it. Iterating a Python \<^verbatim>\<open>str\<close> yields these.
\<close>

definition is_continuation :: "char \<Rightarrow> bool" where
  "is_continuation c = (128 \<le> (of_char c :: nat) \<and> (of_char c :: nat) < 192)"

fun code_points :: "string \<Rightarrow> string list" where
  "code_points [] = []"
| "code_points (c # cs) =
     (case code_points cs of
        [] \<Rightarrow> [[c]]
      | g # gs \<Rightarrow> if is_continuation (hd g) then (c # g) # gs else [c] # g # gs)"

text \<open>\<^verbatim>\<open>sub in s\<close> for two strings: \<open>sub\<close> occurs in \<open>s\<close> as a contiguous part.\<close>

fun str_contains :: "string \<Rightarrow> string \<Rightarrow> bool" where
  "str_contains sub [] = (sub = [])"
| "str_contains sub (c # cs) = (prefix sub (c # cs) \<or> str_contains sub cs)"

section \<open>Operations on Python values\<close>

text \<open>
  Sequencing of steps that can raise: the first exception ends the computation, as it
  does inside a \<^verbatim>\<open>try\<close> block.
\<close>

definition and_then :: "exn + 'a \<Rightarrow> ('a \<Rightarrow> exn + 'b) \<Rightarrow> exn + 'b" where
  "and_then m f = (case m of Inl e \<Rightarrow> Inl e | Inr x \<Rightarrow> f x)"

text \<open>
  The truth value of an object, as \<^verbatim>\<open>if x\<close> and \<^verbatim>\<open>not x\<close> read it: \<^verbatim>\<open>None\<close>, \<^verbatim>\<open>False\<close>,
  zero and every empty container are false.
\<close>

fun truthy :: "pyval \<Rightarrow> bool" where
  "truthy PNone = False"
| "truthy (PBool b) = b"
| "truthy (PInt i) = (i \<noteq> 0)"
| "truthy (PFloat f) = (f \<noteq> Finite 0)"
| "truthy (PStr s) = (s \<noteq> [])"
| "truthy (PList xs) = (xs \<noteq> [])"
| "truthy (PDict d) = (d \<noteq> [])"

text \<open>\<^verbatim>\<open>d.get(key, default)\<close> on a dict.\<close>

definition dict_get :: "(string \<times> pyval) list \<Rightarrow> string \<Rightarrow> pyval \<Rightarrow> pyval" where
  "dict_get d k dflt = (case map_of d k of None \<Rightarrow> dflt | Some v \<Rightarrow> v)"

text \<open>
  \<^verbatim>\<open>obj.get(key, default)\<close> on any object: only a dict has the method, on every other
  object of \<open>pyval\<close> the attribute lookup raises AttributeError.
\<close>

fun py_get :: "pyval \<Rightarrow> string \<Rightarrow> pyval \<Rightarrow> exn + pyval" where
  "py_get (PDict d) k dflt = Inr (dict_get d k dflt)"
| "py_get obj k dflt = Inl AttributeError"

text \<open>
  \<^verbatim>\<open>key in obj\<close> for a string \<open>key\<close>: a key of a dict, an element of a list, a part of a
  string; the other objects are not containers and raise TypeError.
\<close>

fun py_in :: "string \<Rightarrow> pyval \<Rightarrow> exn + bool" where
  "py_in k (PDict d) = Inr (map_of d k \<noteq> None)"
| "py_in k (PList xs) = Inr (PStr k \<in> set xs)"
| "py_in k (PStr s) = Inr (str_contains k s)"
| "py_in k obj = Inl TypeError"

text \<open>
  The elements a \<^verbatim>\<open>for\<close> loop draws from an object: the elements of a list, the keys of
  a dict, the characters of a string; the other objects are not iterable (TypeError).
\<close>

fun py_iter :: "pyval \<Rightarrow> exn + pyval list" where
  "py_iter (PList xs) = Inr xs"
| "py_iter (PDict d) = Inr (map PStr (remdups (map fst d)))"
| "py_iter (PStr s) = Inr (map PStr (code_points s))"
| "py_iter obj = Inl TypeError"

section \<open>The response models\<close>

text \<open>
  Modelled from the spec: the classes \<^verbatim>\<open>BookRecommendation\<close>, \<^verbatim>\<open>TasteProfile\<close> and
  \<^verbatim>\<open>RecommendationResponse\<close> of \<^verbatim>\<open>app/models/response_models.py\<close> are imported by the
  module and are not part of the source at hand. The spec's data model gives their
  fields: a book recommendation has title, author and reason (free text), a
  taste_match_score (float) and a primary_appeal (free text), the last two absent when
  the reply lacks them; a taste profile has themes (a sequence of strings), five
  free-text fields and a confidence_score (float).

  A field holds the Python object that was passed to the constructor. The constructor
  validates it against the field's type and raises ValidationError when it does not
  fit; the intended ranges of the two scores are not enforced. An \<^verbatim>\<open>int\<close> is accepted
  where a float is expected.
\<close>

record BookRecommendation =
  title :: pyval
  author :: pyval
  reason :: pyval
  taste_match_score :: pyval
  primary_appeal :: pyval

record TasteProfile =
  themes :: pyval
  narrative_style :: pyval
  emotional_tone :: pyval
  genre_fusion :: pyval
  character_preferences :: pyval
  artistic_sensibilities :: pyval
  confidence_score :: pyval

record RecommendationResponse =
  movie :: string
  books :: "BookRecommendation list"
  taste_profile :: TasteProfile

text \<open>
  Modelled from the spec: the types of the fields. The two scores are floats, the
  themes a sequence of strings, every other field a string; \<^verbatim>\<open>taste_match_score\<close> and
  \<^verbatim>\<open>primary_appeal\<close> may be \<^verbatim>\<open>None\<close>.
\<close>

fun is_str :: "pyval \<Rightarrow> bool" where
  "is_str (PStr s) = True"
| "is_str v = False"

fun is_number :: "pyval \<Rightarrow> bool" where
  "is_number (PInt i) = True"
| "is_number (PFloat f) = True"
| "is_number v = False"

fun is_str_list :: "pyval \<Rightarrow> bool" where
  "is_str_list (PList xs) = list_all is_str xs"
| "is_str_list v = False"

definition valid_BookRecommendation :: "BookRecommendation \<Rightarrow> bool" where
  "valid_BookRecommendation b =
     (is_str (title b) \<and> is_str (author b) \<and> is_str (reason b)
      \<and> (taste_match_score b = PNone \<or> is_number (taste_match_score b))
      \<and> (primary_appeal b = PNone \<or> is_str (primary_appeal b)))"

definition valid_TasteProfile :: "TasteProfile \<Rightarrow> bool" where
  "valid_TasteProfile p =
     (is_str_list (themes p) \<and> is_str (narrative_style p) \<and> is_str (emotional_tone p)
      \<and> is_str (genre_fusion p) \<and> is_str (character_preferences p)
      \<and> is_str (artistic_sensibilities p) \<and> is_number (confidence_score p))"

text \<open>
  Modelled from the spec: the constructor calls \<^verbatim>\<open>BookRecommendation(...)\<close> and
  \<^verbatim>\<open>TasteProfile(...)\<close>, which return the object when the fields fit their types and
  raise ValidationError otherwise.
\<close>

definition new_BookRecommendation ::
  "pyval \<Rightarrow> pyval \<Rightarrow> pyval \<Rightarrow> pyval \<Rightarrow> pyval \<Rightarrow> exn + BookRecommendation" where
  "new_BookRecommendation t a r s p =
     (let b = \<lparr>title = t, author = a, reason = r, taste_match_score = s, primary_appeal = p\<rparr>
      in if valid_BookRecommendation b then Inr b else Inl ValidationError)"

definition new_TasteProfile ::
  "pyval \<Rightarrow> pyval \<Rightarrow> pyval \<Rightarrow> pyval \<Rightarrow> pyval \<Rightarrow> pyval \<Rightarrow> pyval \<Rightarrow> exn + TasteProfile" where
  "new_TasteProfile th ns et gf cp ar cs =
     (let p = \<lparr>themes = th, narrative_style = ns, emotional_tone = et, genre_fusion = gf,
                character_preferences = cp, artistic_sensibilities = ar,
                confidence_score = cs\<rparr>
      in if valid_TasteProfile p then Inr p else Inl ValidationError)"



section \<open>The movie summary\<close>

text \<open>
  \<^verbatim>\<open>_create_movie_summary(self, movies, taste_profile)\<close>. The second argument is never
  read. In the last branch the f-string evaluates \<^verbatim>\<open>', '.join(movies[:-1])\<close> and then
  \<^verbatim>\<open>movies[-1]\<close>, which raises IndexError on the empty list. The indices 0 and 1 of
  the first two branches are in range by the length test in front of them.
\<close>

definition create_movie_summary :: "string list \<Rightarrow> pyval \<Rightarrow> exn + string" where
  "create_movie_summary movies profile_data =
     (if length movies = 1 then
        Inr (''Based on your interest in '' @ movies ! 0)
      else if length movies = 2 then
        Inr (''Based on your taste for '' @ movies ! 0 @ '' and '' @ movies ! 1)
      else
        (let joined = str_join '', '' (py_slice_to movies (- 1)) in
         case py_index movies (- 1) of
           Inl e \<Rightarrow> Inl e
         | Inr final \<Rightarrow>
             Inr (''Based on your taste profile from '' @ joined @ '', and '' @ final)))"

section \<open>The fallback response\<close>

text \<open>
  \<^verbatim>\<open>_create_fallback_response(self, movies)\<close>: three fixed books and a fixed taste
  profile, built with the constructors, then the movie summary, which is the only part
  that reads \<open>movies\<close> and the only call that can raise.
\<close>

definition fallback_books :: "exn + BookRecommendation list" where
  "fallback_books =
     and_then (new_BookRecommendation
        (PStr ''The Seven Husbands of Evelyn Hugo'')
        (PStr ''Taylor Jenkins Reid'')
        (PStr ''A compelling narrative that combines character depth with emotional complexity, appealing to viewers who appreciate sophisticated storytelling.'')
        (PFloat (Finite 0.8))
        (PStr ''Character-driven storytelling'')) (\<lambda>b1.
     and_then (new_BookRecommendation
        (PStr ''Klara and the Sun'')
        (PStr ''Kazuo Ishiguro'')
        (PStr ''Masterful blend of speculative elements with profound human themes, perfect for those who enjoy thoughtful, emotionally resonant narratives.'')
        (PFloat (Finite 0.85))
        (PStr ''Thoughtful speculative fiction'')) (\<lambda>b2.
     and_then (new_BookRecommendation
        (PStr ''The Midnight Library'')
        (PStr ''Matt Haig'')
        (PStr ''Philosophical exploration of life choices and possibilities, combining accessibility with deeper existential themes.'')
        (PFloat (Finite 0.75))
        (PStr ''Philosophical exploration'')) (\<lambda>b3.
     Inr [b1, b2, b3])))"

definition fallback_taste_profile :: "exn + TasteProfile" where
  "fallback_taste_profile =
     new_TasteProfile
       (PList [PStr ''character development'', PStr ''emotional depth'',
               PStr ''existential themes''])
       (PStr ''Layered, character-driven storytelling'')
       (PStr ''Thoughtful and introspective'')
       (PStr ''Literary fiction with speculative elements'')
       (PStr ''Complex, well-developed characters'')
       (PStr ''Appreciation for literary craftsmanship'')
       (PFloat (Finite 0.6))"

definition create_fallback_response :: "string list \<Rightarrow> exn + RecommendationResponse list" where
  "create_fallback_response movies =
     and_then fallback_books (\<lambda>books_list.
     and_then fallback_taste_profile (\<lambda>profile.
     and_then (create_movie_summary movies (PDict [])) (\<lambda>movie_summary.
     Inr [\<lparr>movie = movie_summary, books = books_list, taste_profile = profile\<rparr>])))"

section \<open>Parsing the reply\<close>

text \<open>
  \<^verbatim>\<open>json.loads\<close> belongs to Python's standard library, not to the module. The parser
  takes it as a parameter \<open>loads\<close>: \<open>loads s = None\<close> when decoding \<open>s\<close> raises, and
  \<open>loads s = Some v\<close> when it returns the object \<open>v\<close>. Every result below holds for
  every such function.
\<close>

type_synonym json_loads = "string \<Rightarrow> pyval option"

text \<open>
  Lines 142 to 147: the reply is stripped, and the markdown fences and the two heading
  texts are removed.
\<close>

definition clean_content :: "string \<Rightarrow> string" where
  "clean_content content0 =
     (let content = str_strip content0;
          content = str_replace ''```'' [] (str_replace ''```json'' [] content);
          content = str_replace ''**STEP 1 - TASTE ANALYSIS:**'' [] content;
          content = str_replace ''**STEP 2 - BOOK RECOMMENDATIONS:**'' [] content
      in content)"

text \<open>
  Lines 154 to 163, the loop \<^verbatim>\<open>for i, char in enumerate(content[json_start:], json_start)\<close>:
  \<open>brace_scan cs i brace_count json_end\<close> runs the loop over the remaining characters
  \<open>cs\<close>, the first of which has index \<open>i\<close>, and returns the final value of \<^verbatim>\<open>json_end\<close>.
  The \<^verbatim>\<open>break\<close> is the branch that does not recurse.
\<close>

fun brace_scan :: "string \<Rightarrow> int \<Rightarrow> int \<Rightarrow> int \<Rightarrow> int" where
  "brace_scan [] i brace_count json_end = json_end"
| "brace_scan (c # cs) i brace_count json_end =
     (if c = CHR ''{'' then brace_scan cs (i + 1) (brace_count + 1) json_end
      else if c = CHR ''}'' then
        (if brace_count - 1 = 0 then i + 1
         else brace_scan cs (i + 1) (brace_count - 1) json_end)
      else brace_scan cs (i + 1) brace_count json_end)"

text \<open>
  Lines 168 to 175: line breaks are normalised, and when the number of double quotes
  is odd the text is cut before its last double quote and closed with as many \<^verbatim>\<open>}\<close> as
  there are unclosed \<^verbatim>\<open>{\<close>. (\<^verbatim>\<open>'}' * n\<close> is empty for a negative \<open>n\<close>.)
\<close>

definition repair_json_str :: "string \<Rightarrow> string" where
  "repair_json_str json_str0 =
     (let json_str = str_replace [CHR 0x0D] [] (str_replace [CHR 0x0A] '' '' json_str0)
      in if py_count json_str (CHR 0x22) mod 2 \<noteq> 0 then
           (let last_quote = py_rfind json_str (CHR 0x22);
                json_str = py_slice_to json_str last_quote;
                open_braces = py_count json_str (CHR ''{'') - py_count json_str (CHR ''}'')
            in json_str @ replicate (nat open_braces) (CHR ''}''))
         else json_str)"

text \<open>
  Lines 192 to 203, the loop over the entries of \<^verbatim>\<open>unified_recommendations\<close>: an entry
  without a true \<^verbatim>\<open>title\<close> or \<^verbatim>\<open>author\<close> is skipped; an entry that is not a dict raises
  AttributeError at \<^verbatim>\<open>book_data.get\<close>; the constructor may raise ValidationError.
\<close>

fun collect_books :: "pyval list \<Rightarrow> exn + BookRecommendation list" where
  "collect_books [] = Inr []"
| "collect_books (book_data # rest) =
     and_then (py_get book_data ''title'' PNone) (\<lambda>t.
     and_then (py_get book_data ''author'' PNone) (\<lambda>a.
     if \<not> truthy t \<or> \<not> truthy a then collect_books rest
     else
       and_then (py_get book_data ''reason'' (PStr [])) (\<lambda>r.
       and_then (py_get book_data ''taste_match_score'' PNone) (\<lambda>s.
       and_then (py_get book_data ''primary_appeal'' PNone) (\<lambda>p.
       and_then (new_BookRecommendation t a r s p) (\<lambda>book.
       and_then (collect_books rest) (\<lambda>unified_books.
       Inr (book # unified_books))))))))"

text \<open>
  Lines 185 to 228: what the parser makes of the decoded object \<open>data\<close>. Each
  \<^verbatim>\<open>return self._create_fallback_response(movies)\<close> stands inside the \<^verbatim>\<open>try\<close> block, so an
  exception it raises is handled like any other.
\<close>

definition build_response :: "pyval \<Rightarrow> string list \<Rightarrow> exn + RecommendationResponse list" where
  "build_response data movies =
     and_then (py_in ''unified_recommendations'' data) (\<lambda>present.
     if \<not> present then create_fallback_response movies
     else
       and_then (py_get data ''unified_recommendations'' (PList [])) (\<lambda>recommendations.
       and_then (py_iter recommendations) (\<lambda>entries.
       and_then (collect_books entries) (\<lambda>unified_books.
       if unified_books = [] then create_fallback_response movies
       else
         and_then (py_get data ''taste_profile'' (PDict [])) (\<lambda>taste_profile_data.
         and_then (py_get taste_profile_data ''themes'' (PList [])) (\<lambda>th.
         and_then (py_get taste_profile_data ''narrative_style'' (PStr [])) (\<lambda>ns.
         and_then (py_get taste_profile_data ''emotional_tone'' (PStr [])) (\<lambda>et.
         and_then (py_get taste_profile_data ''genre_fusion'' (PStr [])) (\<lambda>gf.
         and_then (py_get taste_profile_data ''character_preferences'' (PStr [])) (\<lambda>cp.
         and_then (py_get taste_profile_data ''artistic_sensibilities'' (PStr [])) (\<lambda>ar.
         and_then (py_get taste_profile_data ''confidence_score'' (PFloat (Finite 0.7))) (\<lambda>cs.
         and_then (new_TasteProfile th ns et gf cp ar cs) (\<lambda>profile.
         and_then (create_movie_summary movies taste_profile_data) (\<lambda>movie_summary.
         Inr [\<lparr>movie = movie_summary, books = unified_books,
               taste_profile = profile\<rparr>]))))))))))))))"

text \<open>
  Lines 141 to 183, the body of the \<^verbatim>\<open>try\<close> block up to the decoded object. The reply
  content is \<open>None\<close> when the chat message carries no text; \<^verbatim>\<open>content.strip()\<close> then
  raises AttributeError.
\<close>

definition parse_try ::
  "json_loads \<Rightarrow> string option \<Rightarrow> string list \<Rightarrow> exn + RecommendationResponse list" where
  "parse_try loads reply movies =
     (case reply of
        None \<Rightarrow> Inl AttributeError
      | Some content0 \<Rightarrow>
          (let content = clean_content content0;
               json_start = py_find content (CHR ''{'')
           in if json_start \<noteq> - 1 then
                (let json_end =
                       brace_scan (py_slice_from content json_start) json_start 0 json_start
                 in if json_end > json_start then
                      (let json_str = repair_json_str (py_slice content json_start json_end)
                       in case loads json_str of
                            None \<Rightarrow> Inl JSONDecodeError
                          | Some data \<Rightarrow> build_response data movies)
                    else create_fallback_response movies)
              else create_fallback_response movies))"

text \<open>
  \<^verbatim>\<open>_parse_unified_response(self, content, movies)\<close>: the \<^verbatim>\<open>try\<close> block with its two
  handlers. Both handlers, the one for \<^verbatim>\<open>json.JSONDecodeError\<close> and the one for every
  other \<^verbatim>\<open>Exception\<close>, log and return the fallback response; an exception raised by
  that call inside a handler leaves the function.
\<close>

definition parse_unified_response ::
  "json_loads \<Rightarrow> string option \<Rightarrow> string list \<Rightarrow> exn + RecommendationResponse list" where
  "parse_unified_response loads reply movies =
     (case parse_try loads reply movies of
        Inl e \<Rightarrow> create_fallback_response movies
      | Inr response \<Rightarrow> Inr response)"

section \<open>Building the prompt\<close>

definition nl :: string where
  "nl = [CHR 0x0A]"

text \<open>The bullet character U+2022, as its UTF-8 bytes.\<close>

definition bullet :: string where
  "bullet = [CHR 0xE2, CHR 0x80, CHR 0xA2]"

text \<open>
  Modelled from the spec: the class \<^verbatim>\<open>UserPreferences\<close> of
  \<^verbatim>\<open>app/models/request_models.py\<close> is imported by the module and is not part of the
  source at hand. The spec gives its fields: mood and pace (strings), genre_preferences
  and genre_blocklist (sequences of strings), each optional. The module tests each
  field with \<^verbatim>\<open>if preferences.field:\<close>, so a field counts as set when it is neither
  \<^verbatim>\<open>None\<close> nor empty.
\<close>

record UserPreferences =
  mood :: "string option"
  pace :: "string option"
  genre_preferences :: "string list option"
  genre_blocklist :: "string list option"

definition is_set :: "'a list option \<Rightarrow> bool" where
  "is_set field = (field \<noteq> None \<and> field \<noteq> Some [])"

text \<open>\<^verbatim>\<open>_get_system_prompt(self)\<close> and \<^verbatim>\<open>_get_json_schema(self)\<close>: two fixed texts.\<close>

definition get_system_prompt :: string where
  \<open>get_system_prompt =
     ''You are a literary taste analyst. Your task is to analyze movie preferences and recommend books.'' @
     nl @
     nl @ ''CRITICAL: You must respond with ONLY valid JSON. No explanations, no markdown, no extra text.'' @
     nl @
     nl @ ''ANALYSIS PRINCIPLES:'' @
     nl @ ''- Identify themes, tone, and narrative style across movies'' @
     nl @ ''- Extract emotional and artistic preferences'' @
     nl @ ''- Find deeper aesthetic connections'' @
     nl @
     nl @ ''SCORING:'' @
     nl @ ''- confidence_score: 0.7-1.0 based on pattern clarity'' @
     nl @ ''- taste_match_score: 0.7-1.0 based on thematic alignment'' @
     nl @
     nl @ ''RESPONSE FORMAT: Valid JSON only, exactly matching the required structure.''\<close>

definition get_json_schema :: string where
  \<open>get_json_schema =
     ''{'' @
     nl @ ''  "taste_profile": {'' @
     nl @ ''    "themes": ["theme1", "theme2", "theme3"],'' @
     nl @ ''    "narrative_style": "concise description of storytelling preferences",'' @
     nl @ ''    "emotional_tone": "preferred emotional register",'' @
     nl @ ''    "genre_fusion": "genre preferences and blending patterns",'' @
     nl @ ''    "character_preferences": "preferred character archetypes and development",'' @
     nl @ ''    "artistic_sensibilities": "aesthetic and stylistic preferences",'' @
     nl @ ''    "confidence_score": 0.85'' @
     nl @ ''  },'' @
     nl @ ''  "unified_recommendations": ['' @
     nl @ ''    {'' @
     nl @ ''      "title": "Book Title",'' @
     nl @ ''      "author": "Author Name", '' @
     nl @ ''      "reason": "75+ word explanation connecting to unified taste profile",'' @
     nl @ ''      "taste_match_score": 0.95,'' @
     nl @ ''      "primary_appeal": "core aspect of taste this book satisfies"'' @
     nl @ ''    }'' @
     nl @ ''  ]'' @
     nl @ ''}''\<close>

text \<open>
  Lines 98 to 113, the text after \<^verbatim>\<open>{analysis_instruction}\<close>. The parameter
  \<open>books_count\<close> is the text the f-string renders for
  \<^verbatim>\<open>getattr(settings, 'books_per_recommendation', 3)\<close>, by default \<open>''3''\<close>; the settings
  are not part of the source at hand.
\<close>

definition analysis_steps :: "string \<Rightarrow> string" where
  "analysis_steps books_count =
     nl @
     nl @ ''STEP 1 - TASTE ANALYSIS:'' @
     nl @ ''Extract the aesthetic DNA by identifying:'' @
     nl @ bullet @ '' Recurring themes and emotional territories'' @
     nl @ bullet @ '' Narrative complexity preferences (linear/non-linear, character vs. plot-driven)'' @
     nl @ bullet @ '' Tonal signatures (dark/light, realistic/fantastical, introspective/action-oriented)'' @
     nl @ bullet @ '' Character archetype preferences and relationship dynamics'' @
     nl @ bullet @ '' Visual/atmospheric sensibilities that translate to literary mood'' @
     nl @
     nl @ ''STEP 2 - BOOK RECOMMENDATIONS:'' @
     nl @ ''Select '' @ books_count @ '' books that share this aesthetic DNA. Prioritize:'' @
     nl @ bullet @ '' Thematic resonance over genre matching'' @
     nl @ bullet @ '' Narrative sophistication level alignment'' @
     nl @ bullet @ '' Emotional and tonal consistency'' @
     nl @ bullet @ '' Character depth matching viewer preferences''"

text \<open>Lines 130 to 134, the text appended last.\<close>

definition reply_instruction :: string where
  "reply_instruction =
     nl @
     nl @ ''CRITICAL: Respond with ONLY the JSON below. No explanations, no markdown, no extra text:'' @
     nl @
     nl @ get_json_schema"

text \<open>Lines 89 to 113: the prompt before any constraints.\<close>

definition prompt_base :: "string \<Rightarrow> string list \<Rightarrow> string" where
  "prompt_base books_count movies =
     (let movies_str = str_join '', '' movies;
          analysis_instruction =
            (if length movies = 1
             then ''Analyze '' @ movies ! 0 @ '' to extract the viewer's aesthetic preferences:''
             else ''Find the unified taste pattern across: '' @ movies_str)
      in analysis_instruction @ analysis_steps books_count)"

text \<open>Lines 117 to 125: the constraint lines, appended in the order of the four tests.\<close>

definition constraint_list_of :: "UserPreferences \<Rightarrow> string list" where
  "constraint_list_of preferences =
     (let constraint_list = [];
          constraint_list =
            (case mood preferences of
               Some m \<Rightarrow>
                 if m \<noteq> [] then constraint_list @ [''Mood alignment: '' @ m]
                 else constraint_list
             | None \<Rightarrow> constraint_list);
          constraint_list =
            (case pace preferences of
               Some p \<Rightarrow>
                 if p \<noteq> [] then constraint_list @ [''Pacing: '' @ p] else constraint_list
             | None \<Rightarrow> constraint_list);
          constraint_list =
            (case genre_preferences preferences of
               Some gs \<Rightarrow>
                 if gs \<noteq> [] then constraint_list @ [''Favor: '' @ str_join '', '' gs]
                 else constraint_list
             | None \<Rightarrow> constraint_list);
          constraint_list =
            (case genre_blocklist preferences of
               Some gs \<Rightarrow>
                 if gs \<noteq> [] then constraint_list @ [''Avoid: '' @ str_join '', '' gs]
                 else constraint_list
             | None \<Rightarrow> constraint_list)
      in constraint_list)"

text \<open>
  \<^verbatim>\<open>_build_unified_prompt(self, movies, preferences)\<close>. The test \<^verbatim>\<open>if preferences:\<close> is
  true for every preferences object and false for \<^verbatim>\<open>None\<close>.
\<close>

definition build_unified_prompt ::
  "string \<Rightarrow> string list \<Rightarrow> UserPreferences option \<Rightarrow> string" where
  "build_unified_prompt books_count movies preferences =
     (let prompt = prompt_base books_count movies;
          prompt =
            (case preferences of
               None \<Rightarrow> prompt
             | Some p \<Rightarrow>
                 (let constraint_list = constraint_list_of p
                  in if constraint_list \<noteq> []
                     then prompt @ nl @ nl @ ''CONSTRAINTS:'' @ nl @ bullet @ '' ''
                            @ str_join (nl @ bullet @ '' '') constraint_list
                     else prompt))
      in prompt @ reply_instruction)"

section \<open>The two entry points\<close>

text \<open>
  The chat model is outside the module. A request carries the two message texts and
  the two sampling parameters the module fixes (the model name comes from the settings).
  The client is a parameter: for a request it gives what the awaited call and the read
  of \<^verbatim>\<open>response.choices[0].message.content\<close> produce, \<open>Inl\<close> when one of them raises,
  \<open>Inr None\<close> for a message without text and \<open>Inr (Some text)\<close> otherwise.
\<close>

record chat_request =
  system_content :: string
  user_content :: string
  max_tokens :: nat
  temperature :: real

type_synonym chat_client = "chat_request \<Rightarrow> exn + string option"

text \<open>The request \<^verbatim>\<open>generate_recommendations\<close> sends (lines 29 to 37).\<close>

definition generation_request ::
  "string \<Rightarrow> string list \<Rightarrow> UserPreferences option \<Rightarrow> chat_request" where
  "generation_request books_count movies preferences =
     (let prompt = build_unified_prompt books_count movies preferences
      in \<lparr>system_content = get_system_prompt, user_content = prompt,
          max_tokens = 2000, temperature = 0.3\<rparr>)"

text \<open>
  \<^verbatim>\<open>generate_recommendations(self, movies, preferences)\<close>: the prompt is built outside
  the \<^verbatim>\<open>try\<close> block (it cannot raise); the call and the parsing are inside; the handler
  returns the fallback response, and an exception raised there reaches the caller.
\<close>

definition generate_recommendations ::
  "chat_client \<Rightarrow> json_loads \<Rightarrow> string \<Rightarrow> string list \<Rightarrow> UserPreferences option
     \<Rightarrow> exn + RecommendationResponse list" where
  "generate_recommendations client loads books_count movies preferences =
     (case and_then (client (generation_request books_count movies preferences))
             (\<lambda>content. parse_unified_response loads content movies) of
        Inl e \<Rightarrow> create_fallback_response movies
      | Inr response \<Rightarrow> Inr response)"

text \<open>The two fixed texts of \<^verbatim>\<open>analyze_taste_profile\<close>.\<close>

definition analysis_system_prompt :: string where
  "analysis_system_prompt =
     ''You are an expert in cross-media aesthetic analysis. Extract unified patterns from film preferences. Always respond with valid JSON only.''"

definition analysis_prompt :: "string list \<Rightarrow> string" where
  \<open>analysis_prompt movies =
     (let movies_str = str_join '', '' movies
      in ''Extract the unified aesthetic profile from: '' @ movies_str @
         nl @
         nl @ ''ANALYSIS FRAMEWORK:'' @
         nl @ bullet @ '' Thematic territories: Core emotional/philosophical themes'' @
         nl @ bullet @ '' Narrative DNA: Structural and storytelling preferences  '' @
         nl @ bullet @ '' Tonal signature: Emotional register and atmospheric preferences'' @
         nl @ bullet @ '' Character archetypes: Relationship dynamics and development patterns'' @
         nl @ bullet @ '' Artistic sensibilities: Visual/stylistic elements that translate to literary mood'' @
         nl @
         nl @ ''SCORING: Rate confidence (0.5-1.0) based on pattern clarity across films.'' @
         nl @
         nl @ ''RESPONSE FORMAT:'' @
         nl @ ''{'' @
         nl @ ''  "themes": ["specific thematic elements"],'' @
         nl @ ''  "narrative_style": "storytelling approach preferences",'' @
         nl @ ''  "emotional_tone": "tonal and atmospheric preferences", '' @
         nl @ ''  "genre_fusion": "genre blending and boundary preferences",'' @
         nl @ ''  "character_preferences": "character type and development preferences",'' @
         nl @ ''  "artistic_sensibilities": "aesthetic and stylistic preferences",'' @
         nl @ ''  "confidence_score": 0.85'' @
         nl @ ''}'')\<close>

text \<open>The request \<^verbatim>\<open>analyze_taste_profile\<close> sends (lines 324 to 332).\<close>

definition analysis_request :: "string list \<Rightarrow> chat_request" where
  "analysis_request movies =
     \<lparr>system_content = analysis_system_prompt, user_content = analysis_prompt movies,
      max_tokens = 600, temperature = 0.6\<rparr>"

text \<open>Lines 343 to 351: the mapping the handler of \<^verbatim>\<open>analyze_taste_profile\<close> returns.\<close>

definition analysis_fallback :: pyval where
  "analysis_fallback =
     PDict
       [(''themes'', PList [PStr ''character-driven narratives'', PStr ''emotional complexity'']),
        (''narrative_style'', PStr ''Layered, sophisticated storytelling''),
        (''emotional_tone'', PStr ''Thoughtful and emotionally resonant''),
        (''genre_fusion'', PStr ''Cross-genre sensibilities''),
        (''character_preferences'', PStr ''Complex, well-developed characters''),
        (''artistic_sensibilities'', PStr ''Appreciation for narrative craftsmanship''),
        (''confidence_score'', PFloat (Finite 0.5))]"

text \<open>
  Lines 323 to 339, the \<^verbatim>\<open>try\<close> block of \<^verbatim>\<open>analyze_taste_profile\<close>: the reply is cut
  from its first \<^verbatim>\<open>{\<close> to its last \<^verbatim>\<open>}\<close> (either index may be \<open>-1\<close>, which the slice
  reads as Python does) and decoded. A reply without text raises AttributeError at
  \<^verbatim>\<open>content.find\<close>.
\<close>

definition analyze_try :: "chat_client \<Rightarrow> json_loads \<Rightarrow> string list \<Rightarrow> exn + pyval" where
  "analyze_try client loads movies =
     and_then (client (analysis_request movies))
       (\<lambda>reply.
          case reply of
            None \<Rightarrow> Inl AttributeError
          | Some content \<Rightarrow>
              (let json_start = py_find content (CHR ''{'');
                   json_end = py_rfind content (CHR ''}'') + 1;
                   json_str = py_slice content json_start json_end
               in case loads json_str of
                    None \<Rightarrow> Inl JSONDecodeError
                  | Some v \<Rightarrow> Inr v))"

text \<open>
  \<^verbatim>\<open>analyze_taste_profile(self, movies, preferences)\<close>: the handler catches every
  exception and returns the fixed mapping, so the function itself never raises. The
  argument \<^verbatim>\<open>preferences\<close> is never read.
\<close>

definition analyze_taste_profile ::
  "chat_client \<Rightarrow> json_loads \<Rightarrow> string list \<Rightarrow> UserPreferences option \<Rightarrow> pyval" where
  "analyze_taste_profile client loads movies preferences =
     (case analyze_try client loads movies of
        Inl e \<Rightarrow> analysis_fallback
      | Inr v \<Rightarrow> v)"

section \<open>The invariant of a returned result\<close>

text \<open>
  What every list returned by the generation path satisfies: it holds exactly one
  response, whose book list is not empty and holds valid books, whose taste profile is
  valid, and whose summary is the movie summary of the request.
\<close>

definition usable :: "string list \<Rightarrow> RecommendationResponse list \<Rightarrow> bool" where
  "usable movies rs = (\<exists>r. rs = [r] \<and> books r \<noteq> []
      \<and> list_all valid_BookRecommendation (books r)
      \<and> valid_TasteProfile (taste_profile r)
      \<and> create_movie_summary movies (PDict []) = Inr (movie r))"

section \<open>Brace depth and the text handed to the decoder\<close>

text \<open>
  The brace depth of a text is the number of its opening braces minus the number of
  its closing braces. Counted from the first opening brace of a text, the depth returns
  to zero when some non-empty prefix of the text from that brace on has depth zero.
\<close>

definition is_brace :: "char \<Rightarrow> bool" where
  "is_brace c = (c = CHR ''{'' \<or> c = CHR ''}'')"

definition brace_depth :: "string \<Rightarrow> int" where
  "brace_depth s = py_count s (CHR ''{'') - py_count s (CHR ''}'')"

definition from_first_brace :: "string \<Rightarrow> string" where
  "from_first_brace s = dropWhile (\<lambda>c. c \<noteq> CHR ''{'') s"

definition depth_returns_to_zero :: "string \<Rightarrow> bool" where
  "depth_returns_to_zero s =
     (\<exists>k \<in> {1 .. length (from_first_brace s)}. brace_depth (take k (from_first_brace s)) = 0)"

text \<open>
  \<open>closes_from d s\<close>: reading \<open>s\<close> at depth \<open>d\<close>, some closing brace brings the depth to
  zero. It is the recursive form of the same notion, used in the proofs.
\<close>

fun closes_from :: "int \<Rightarrow> string \<Rightarrow> bool" where
  "closes_from d [] = False"
| "closes_from d (c # cs) =
     (if c = CHR ''{'' then closes_from (d + 1) cs
      else if c = CHR ''}'' then d - 1 = 0 \<or> closes_from (d - 1) cs
      else closes_from d cs)"

text \<open>
  The text the parser hands to \<^verbatim>\<open>json.loads\<close> for a reply: \<open>None\<close> when the parser returns
  the fallback response before it decodes anything (lines 178 to 183). It is the part
  of \<open>parse_try\<close> in front of the call of the decoder.
\<close>

definition decoder_input :: "string \<Rightarrow> string option" where
  "decoder_input content0 =
     (let content = clean_content content0;
          json_start = py_find content (CHR ''{'')
      in if json_start \<noteq> - 1 then
           (let json_end =
                  brace_scan (py_slice_from content json_start) json_start 0 json_start
            in if json_end > json_start
               then Some (repair_json_str (py_slice content json_start json_end))
               else None)
         else None)"

section \<open>Entries without a title or an author\<close>

text \<open>
  An entry of \<^verbatim>\<open>unified_recommendations\<close> that is an object and has no \<^verbatim>\<open>title\<close> key or no
  \<^verbatim>\<open>author\<close> key.
\<close>

definition lacks_title_or_author :: "pyval \<Rightarrow> bool" where
  "lacks_title_or_author entry =
     (case entry of
        PDict d \<Rightarrow> map_of d ''title'' = None \<or> map_of d ''author'' = None
      | _ \<Rightarrow> False)"

section \<open>Sample replies\<close>

text \<open>
  Concrete reply texts, the objects \<^verbatim>\<open>json.loads\<close> returns for them, and a decoder that
  agrees with \<^verbatim>\<open>json.loads\<close> on these texts and raises on every other text. The
  theorems below are instantiated with them.
\<close>

definition sample_reply :: string where
  \<open>sample_reply =
     ''{"unified_recommendations": [{"title": "Dune", "author": "Frank Herbert", "reason": "a great book"}]}''\<close>

definition sample_data :: pyval where
  "sample_data =
     PDict [(''unified_recommendations'',
             PList [PDict [(''title'', PStr ''Dune''), (''author'', PStr ''Frank Herbert''),
                           (''reason'', PStr ''a great book'')]])]"

text \<open>The sample reply cut off inside its last string value.\<close>

definition truncated_reply :: string where
  \<open>truncated_reply =
     ''{"unified_recommendations": [{"title": "Dune", "author": "Frank Herbert", "reason": "a great book''\<close>

definition no_author_reply :: string where
  \<open>no_author_reply = ''{"unified_recommendations": [{"title": "Dune"}]}''\<close>

definition no_author_data :: pyval where
  "no_author_data =
     PDict [(''unified_recommendations'', PList [PDict [(''title'', PStr ''Dune'')]])]"

text \<open>The same reply without its last closing brace.\<close>

definition no_author_reply_open :: string where
  \<open>no_author_reply_open = ''{"unified_recommendations": [{"title": "Dune"}]''\<close>

definition mixed_reply :: string where
  \<open>mixed_reply =
     ''{"unified_recommendations": [{"title": "Dune"}, {"title": "Solaris", "author": "Stanislaw Lem"}]}''\<close>

definition mixed_data :: pyval where
  "mixed_data =
     PDict [(''unified_recommendations'',
             PList [PDict [(''title'', PStr ''Dune'')],
                    PDict [(''title'', PStr ''Solaris''), (''author'', PStr ''Stanislaw Lem'')]])]"

definition with_profile_reply :: string where
  \<open>with_profile_reply =
     ''{"taste_profile": {"themes": ["fate"], "emotional_tone": "dark"}, "unified_recommendations": [{"title": "Dune", "author": "Frank Herbert"}]}''\<close>

definition with_profile_data :: pyval where
  "with_profile_data =
     PDict [(''taste_profile'',
             PDict [(''themes'', PList [PStr ''fate'']), (''emotional_tone'', PStr ''dark'')]),
            (''unified_recommendations'',
             PList [PDict [(''title'', PStr ''Dune''), (''author'', PStr ''Frank Herbert'')]])]"

definition sample_loads :: json_loads where
  "sample_loads =
     map_of [(sample_reply, sample_data), (no_author_reply, no_author_data),
             (mixed_reply, mixed_data), (with_profile_reply, with_profile_data)]"

text \<open>A chat client that replies the given text to every request.\<close>

definition replying :: "string \<Rightarrow> chat_client" where
  "replying text_reply request = Inr (Some text_reply)"

section \<open>Properties of the list and string operations\<close>

lemma py_slice_to_minus_one: "py_slice_to xs (- 1) = butlast xs"
proof -
  have "nat (max 0 (int n - 1)) = n - 1" for n :: nat
    by (cases n) simp_all
  then show ?thesis
    by (simp add: py_slice_to_def py_bound_def butlast_conv_take)
qed

lemma py_index_minus_one: "xs \<noteq> [] \<Longrightarrow> py_index xs (- 1) = Inr (last xs)"
  by (cases xs rule: rev_cases) (simp_all add: py_index_def Let_def nat_add_distrib)

lemma py_index_minus_one_Nil: "py_index [] (- 1) = Inl IndexError"
  by (simp add: py_index_def)

section \<open>Properties of the fallback and of the parser\<close>

lemma and_then_Inl [simp]: "and_then (Inl e) f = Inl e"
  by (simp add: and_then_def)

lemma and_then_Inr [simp]: "and_then (Inr x) f = f x"
  by (simp add: and_then_def)

lemma and_then_succeeds:
  assumes "and_then m f = Inr y"
  obtains x where "m = Inr x" and "f x = Inr y"
  using assms by (cases m) simp_all

lemma create_movie_summary_ignores_profile:
  "create_movie_summary movies tp = create_movie_summary movies tp'"
  by (simp add: create_movie_summary_def)

lemma create_movie_summary_Nil: "create_movie_summary [] tp = Inl IndexError"
  by (simp add: create_movie_summary_def py_index_minus_one_Nil)

lemma create_movie_summary_Cons:
  "movies \<noteq> [] \<Longrightarrow> \<exists>s. create_movie_summary movies tp = Inr s"
  by (simp add: create_movie_summary_def py_index_minus_one)

lemma fallback_books_value:
  "\<exists>b1 b2 b3. fallback_books = Inr [b1, b2, b3]
     \<and> valid_BookRecommendation b1 \<and> valid_BookRecommendation b2
     \<and> valid_BookRecommendation b3"
  by (simp add: fallback_books_def new_BookRecommendation_def valid_BookRecommendation_def)

lemma fallback_taste_profile_value:
  "\<exists>p. fallback_taste_profile = Inr p \<and> valid_TasteProfile p
     \<and> confidence_score p = PFloat (Finite 0.6)"
  by (simp add: fallback_taste_profile_def new_TasteProfile_def valid_TasteProfile_def)





lemma create_fallback_response_Nil: "create_fallback_response [] = Inl IndexError"
proof -
  obtain b1 b2 b3 where b: "fallback_books = Inr [b1, b2, b3]"
    using fallback_books_value by blast
  obtain p where p: "fallback_taste_profile = Inr p"
    using fallback_taste_profile_value by blast
  show ?thesis
    by (simp add: create_fallback_response_def create_movie_summary_Nil b p)
qed

lemma create_fallback_response_Cons:
  assumes "movies \<noteq> []"
  shows "\<exists>r. create_fallback_response movies = Inr [r]
           \<and> length (books r) = 3
           \<and> list_all valid_BookRecommendation (books r)
           \<and> valid_TasteProfile (taste_profile r)
           \<and> confidence_score (taste_profile r) = PFloat (Finite 0.6)
           \<and> create_movie_summary movies (PDict []) = Inr (movie r)"
proof -
  obtain b1 b2 b3 where b: "fallback_books = Inr [b1, b2, b3]"
      "valid_BookRecommendation b1" "valid_BookRecommendation b2" "valid_BookRecommendation b3"
    using fallback_books_value by blast
  obtain p where p: "fallback_taste_profile = Inr p" "valid_TasteProfile p"
      "confidence_score p = PFloat (Finite 0.6)"
    using fallback_taste_profile_value by blast
  obtain s where s: "create_movie_summary movies (PDict []) = Inr s"
    using create_movie_summary_Cons [OF assms] by blast
  show ?thesis
    by (simp add: create_fallback_response_def b p s)
qed

lemma new_BookRecommendation_valid:
  "new_BookRecommendation t a r s p = Inr b \<Longrightarrow> valid_BookRecommendation b"
  by (auto simp: new_BookRecommendation_def Let_def split: if_splits)

lemma new_TasteProfile_valid:
  "new_TasteProfile th ns et gf cp ar cs = Inr p \<Longrightarrow> valid_TasteProfile p"
  by (auto simp: new_TasteProfile_def Let_def split: if_splits)

lemma collect_books_valid:
  "collect_books entries = Inr bs \<Longrightarrow> list_all valid_BookRecommendation bs"
proof (induction entries arbitrary: bs)
  case Nil
  then show ?case by simp
next
  case (Cons e es)
  show ?case
  proof (cases e)
    case (PDict d)
    show ?thesis
    proof (cases "\<not> truthy (dict_get d ''title'' PNone) \<or> \<not> truthy (dict_get d ''author'' PNone)")
      case True
      with Cons PDict show ?thesis by auto
    next
      case False
      with Cons.prems PDict obtain b bs' where
        "new_BookRecommendation (dict_get d ''title'' PNone) (dict_get d ''author'' PNone)
           (dict_get d ''reason'' (PStr [])) (dict_get d ''taste_match_score'' PNone)
           (dict_get d ''primary_appeal'' PNone) = Inr b"
        "collect_books es = Inr bs'" "bs = b # bs'"
        by (auto elim!: and_then_succeeds)
      with Cons.IH show ?thesis
        by (simp add: new_BookRecommendation_valid)
    qed
  qed (use Cons.prems in simp_all)
qed

lemma create_fallback_response_usable:
  "create_fallback_response movies = Inr rs \<Longrightarrow> usable movies rs"
proof (cases "movies = []")
  case True
  assume "create_fallback_response movies = Inr rs"
  with True show ?thesis by (simp add: create_fallback_response_Nil)
next
  case False
  assume a: "create_fallback_response movies = Inr rs"
  from create_fallback_response_Cons [OF False] a show ?thesis
    by (auto simp: usable_def)
qed

lemma build_response_usable:
  assumes "build_response data movies = Inr rs"
  shows "usable movies rs"
proof -
  from assms obtain present where
    p: "py_in ''unified_recommendations'' data = Inr present" and
    r: "(if \<not> present then create_fallback_response movies
       else
       and_then (py_get data ''unified_recommendations'' (PList [])) (\<lambda>recommendations.
       and_then (py_iter recommendations) (\<lambda>entries.
       and_then (collect_books entries) (\<lambda>unified_books.
       if unified_books = [] then create_fallback_response movies
       else
         and_then (py_get data ''taste_profile'' (PDict [])) (\<lambda>taste_profile_data.
         and_then (py_get taste_profile_data ''themes'' (PList [])) (\<lambda>th.
         and_then (py_get taste_profile_data ''narrative_style'' (PStr [])) (\<lambda>ns.
         and_then (py_get taste_profile_data ''emotional_tone'' (PStr [])) (\<lambda>et.
         and_then (py_get taste_profile_data ''genre_fusion'' (PStr [])) (\<lambda>gf.
         and_then (py_get taste_profile_data ''character_preferences'' (PStr [])) (\<lambda>cp.
         and_then (py_get taste_profile_data ''artistic_sensibilities'' (PStr [])) (\<lambda>ar.
         and_then (py_get taste_profile_data ''confidence_score'' (PFloat (Finite 0.7))) (\<lambda>cs.
         and_then (new_TasteProfile th ns et gf cp ar cs) (\<lambda>profile.
         and_then (create_movie_summary movies taste_profile_data) (\<lambda>movie_summary.
         Inr [\<lparr>movie = movie_summary, books = unified_books,
               taste_profile = profile\<rparr>])))))))))))))) = Inr rs"
    unfolding build_response_def by (rule and_then_succeeds)
  show ?thesis
  proof (cases present)
    case False
    with r show ?thesis by (simp add: create_fallback_response_usable)
  next
    case True
    with r obtain entries bs where
      bs: "collect_books entries = Inr bs" and
      r2: "(if bs = [] then create_fallback_response movies
       else
         and_then (py_get data ''taste_profile'' (PDict [])) (\<lambda>taste_profile_data.
         and_then (py_get taste_profile_data ''themes'' (PList [])) (\<lambda>th.
         and_then (py_get taste_profile_data ''narrative_style'' (PStr [])) (\<lambda>ns.
         and_then (py_get taste_profile_data ''emotional_tone'' (PStr [])) (\<lambda>et.
         and_then (py_get taste_profile_data ''genre_fusion'' (PStr [])) (\<lambda>gf.
         and_then (py_get taste_profile_data ''character_preferences'' (PStr [])) (\<lambda>cp.
         and_then (py_get taste_profile_data ''artistic_sensibilities'' (PStr [])) (\<lambda>ar.
         and_then (py_get taste_profile_data ''confidence_score'' (PFloat (Finite 0.7))) (\<lambda>cs.
         and_then (new_TasteProfile th ns et gf cp ar cs) (\<lambda>profile.
         and_then (create_movie_summary movies taste_profile_data) (\<lambda>movie_summary.
         Inr [\<lparr>movie = movie_summary, books = bs,
               taste_profile = profile\<rparr>]))))))))))) = Inr rs"
      by (auto elim!: and_then_succeeds)
    show ?thesis
    proof (cases "bs = []")
      case True
      with r2 show ?thesis by (simp add: create_fallback_response_usable)
    next
      case False
      with r2 obtain tpd th ns et gf cp ar cs profile s where
        "new_TasteProfile th ns et gf cp ar cs = Inr profile"
        "create_movie_summary movies tpd = Inr s"
        "rs = [\<lparr>movie = s, books = bs, taste_profile = profile\<rparr>]"
        by (auto elim!: and_then_succeeds)
      with False bs show ?thesis
        using create_movie_summary_ignores_profile [of movies tpd "PDict []"]
        by (simp add: usable_def collect_books_valid new_TasteProfile_valid)
    qed
  qed
qed

lemma usable_Nil: "\<not> usable [] rs"
  by (simp add: usable_def create_movie_summary_Nil)

lemma parse_try_usable:
  "parse_try loads reply movies = Inr rs \<Longrightarrow> usable movies rs"
  by (auto simp: parse_try_def Let_def build_response_usable create_fallback_response_usable
      split: option.splits if_splits)

lemma parse_unified_response_usable:
  "parse_unified_response loads reply movies = Inr rs \<Longrightarrow> usable movies rs"
  by (auto simp: parse_unified_response_def parse_try_usable create_fallback_response_usable
      split: sum.splits)

lemma parse_unified_response_Cons:
  "movies \<noteq> [] \<Longrightarrow> \<exists>rs. parse_unified_response loads reply movies = Inr rs"
  using create_fallback_response_Cons [of movies]
  by (auto simp: parse_unified_response_def split: sum.splits)

lemma parse_unified_response_Nil: "parse_unified_response loads reply [] = Inl IndexError"
proof (cases "parse_try loads reply []")
  case (Inl e)
  then show ?thesis
    by (simp add: parse_unified_response_def create_fallback_response_Nil)
next
  case (Inr rs)
  then show ?thesis
    using parse_try_usable [of loads reply "[]" rs] by (simp add: usable_Nil)
qed

lemma generate_recommendations_usable:
  "generate_recommendations client loads books_count movies preferences = Inr rs
   \<Longrightarrow> usable movies rs"
  by (auto simp: generate_recommendations_def Let_def and_then_def
      parse_unified_response_usable create_fallback_response_usable split: sum.splits)

lemma generate_recommendations_Cons:
  "movies \<noteq> []
   \<Longrightarrow> \<exists>rs. generate_recommendations client loads books_count movies preferences = Inr rs"
  using create_fallback_response_Cons [of movies]
  by (auto simp: generate_recommendations_def Let_def split: sum.splits)

lemma generate_recommendations_Nil:
  "generate_recommendations client loads books_count [] preferences = Inl IndexError"
proof (cases "generate_recommendations client loads books_count [] preferences")
  case (Inl e)
  then show ?thesis
    by (auto simp: generate_recommendations_def Let_def create_fallback_response_Nil
        split: sum.splits)
next
  case (Inr rs)
  then show ?thesis
    using generate_recommendations_usable [of client loads books_count "[]" preferences rs]
    by (simp add: usable_Nil)
qed

section \<open>Properties of the brace scan\<close>

lemma parse_try_decoder_input:
  "parse_try loads (Some content) movies =
     (case decoder_input content of
        None \<Rightarrow> create_fallback_response movies
      | Some json_str \<Rightarrow>
          (case loads json_str of
             None \<Rightarrow> Inl JSONDecodeError
           | Some data \<Rightarrow> build_response data movies))"
  by (simp add: parse_try_def decoder_input_def Let_def)

lemma filter_str_replace:
  assumes "\<forall>c \<in> set old. \<not> P c" and "\<forall>c \<in> set new. \<not> P c"
  shows "filter P (str_replace old new s) = filter P s"
  using assms
proof (induction old new s rule: str_replace.induct)
  case (1 old new)
  show ?case by simp
next
  case (2 old new c cs)
  show ?case
  proof (cases "old \<noteq> [] \<and> prefix old (c # cs)")
    case True
    let ?rest = "drop (length old) (c # cs)"
    from True have "take (length old) (c # cs) = old"
      by (auto simp: prefix_def)
    then have split: "filter P (c # cs) = filter P old @ filter P ?rest"
      by (metis append_take_drop_id filter_append)
    have "filter P (str_replace old new (c # cs))
            = filter P new @ filter P (str_replace old new ?rest)"
      using True by simp
    also have "\<dots> = filter P (str_replace old new ?rest)"
      using "2.prems"(2) by simp
    also have "\<dots> = filter P ?rest"
      using "2.IH"(1) [OF True "2.prems"] .
    also have "\<dots> = filter P (c # cs)"
      using split "2.prems"(1) by simp
    finally show ?thesis .
  next
    case False
    with 2 show ?thesis by auto
  qed
qed

lemma whitespace_no_brace: "w \<in> set whitespace \<Longrightarrow> filter is_brace w = []"
  by (auto simp: whitespace_def is_brace_def)

lemma filter_lstrip: "filter is_brace (lstrip s) = filter is_brace s"
proof (induction s rule: lstrip.induct)
  case (1 s)
  show ?case
  proof (cases "List.find (\<lambda>w. prefix w s) whitespace")
    case None
    then show ?thesis by (simp add: lstrip.simps [of s])
  next
    case (Some w)
    then have w: "w \<in> set whitespace" "prefix w s"
      by (auto simp: find_Some_iff)
    then have "take (length w) s = w"
      by (auto simp: prefix_def)
    then have "filter is_brace s = filter is_brace w @ filter is_brace (drop (length w) s)"
      by (metis append_take_drop_id filter_append)
    with w 1 [OF Some] Some show ?thesis
      by (simp add: lstrip.simps [of s] whitespace_no_brace)
  qed
qed

lemma filter_rstrip: "filter is_brace (rstrip s) = filter is_brace s"
proof (induction s rule: rstrip.induct)
  case (1 s)
  show ?case
  proof (cases "List.find (\<lambda>w. suffix w s) whitespace")
    case None
    then show ?thesis by (simp add: rstrip.simps [of s])
  next
    case (Some w)
    then have w: "w \<in> set whitespace" "suffix w s"
      by (auto simp: find_Some_iff)
    then have "drop (length s - length w) s = w"
      by (auto simp: suffix_def)
    then have "filter is_brace s = filter is_brace (take (length s - length w) s) @ filter is_brace w"
      by (metis append_take_drop_id filter_append)
    with w 1 [OF Some] Some show ?thesis
      by (simp add: rstrip.simps [of s] whitespace_no_brace)
  qed
qed

lemma filter_clean_content: "filter is_brace (clean_content s) = filter is_brace s"
  by (simp add: clean_content_def Let_def filter_str_replace is_brace_def [abs_def]
      str_strip_def filter_lstrip [unfolded is_brace_def [abs_def]]
      filter_rstrip [unfolded is_brace_def [abs_def]])

lemma find_from_absent: "c \<notin> set s \<Longrightarrow> find_from c s i = - 1"
  by (induction s arbitrary: i) auto

lemma find_from_present:
  "c \<in> set s \<Longrightarrow> find_from c s i = i + int (length (takeWhile (\<lambda>x. x \<noteq> c) s))"
  by (induction s arbitrary: i) auto

lemma py_slice_from_find:
  assumes "c \<in> set s"
  shows "py_slice_from s (py_find s c) = dropWhile (\<lambda>x. x \<noteq> c) s"
proof -
  have "length (takeWhile (\<lambda>x. x \<noteq> c) s) \<le> length s"
    by (rule length_takeWhile_le)
  then show ?thesis
    using assms
    by (simp add: py_slice_from_def py_find_def find_from_present py_bound_def
        dropWhile_eq_drop)
qed

lemma closes_from_filter: "closes_from d (filter is_brace s) = closes_from d s"
  by (induction s arbitrary: d) (auto simp: is_brace_def)

lemma brace_scan_not_closed:
  "0 < d \<Longrightarrow> \<not> closes_from d s \<Longrightarrow> brace_scan s i d json_end = json_end"
  by (induction s arbitrary: i d) (auto split: if_splits)

lemma brace_depth_Nil [simp]: "brace_depth [] = 0"
  by (simp add: brace_depth_def py_count_def)

lemma brace_depth_Cons:
  "brace_depth (c # cs) =
     (if c = CHR ''{'' then 1 else if c = CHR ''}'' then - 1 else 0) + brace_depth cs"
  by (simp add: brace_depth_def py_count_def)

lemma closes_from_iff:
  "0 < d \<Longrightarrow> closes_from d s = (\<exists>k \<in> {1 .. length s}. d + brace_depth (take k s) = 0)"
proof (induction s arbitrary: d)
  case Nil
  show ?case by simp
next
  case (Cons c cs)
  let ?w = "if c = CHR ''{'' then 1 else if c = CHR ''}'' then - 1 else (0::int)"
  have shift: "(\<exists>k \<in> {1 .. length (c # cs)}. d + brace_depth (take k (c # cs)) = 0)
      = (d + ?w = 0 \<or> (\<exists>k \<in> {1 .. length cs}. d + ?w + brace_depth (take k cs) = 0))"
    (is "?L = ?R")
  proof
    assume ?L
    then obtain k where k: "1 \<le> k" "k \<le> Suc (length cs)"
        "d + brace_depth (take k (c # cs)) = 0"
      by auto
    then obtain j where j: "k = Suc j"
      by (cases k) auto
    show ?R
    proof (cases j)
      case 0
      with k j show ?thesis by (simp add: brace_depth_Cons)
    next
      case (Suc i)
      with k j have "j \<in> {1 .. length cs}" "d + ?w + brace_depth (take j cs) = 0"
        by (simp_all add: brace_depth_Cons)
      then show ?thesis by blast
    qed
  next
    assume ?R
    then show ?L
    proof
      assume "d + ?w = 0"
      then have "d + brace_depth (take 1 (c # cs)) = 0"
        by (simp add: brace_depth_Cons)
      then show ?L
        by (intro bexI [of _ 1]) simp_all
    next
      assume "\<exists>k \<in> {1 .. length cs}. d + ?w + brace_depth (take k cs) = 0"
      then obtain k where "k \<in> {1 .. length cs}" "d + ?w + brace_depth (take k cs) = 0"
        by blast
      then have "Suc k \<in> {1 .. length (c # cs)}"
          "d + brace_depth (take (Suc k) (c # cs)) = 0"
        by (simp_all add: brace_depth_Cons)
      then show ?L by blast
    qed
  qed
  show ?case
  proof (cases "c = CHR ''{''")
    case True
    with Cons.IH [of "d + 1"] Cons.prems shift show ?thesis
      by simp
  next
    case False
    note not_open = this
    show ?thesis
    proof (cases "c = CHR ''}''")
      case True
      show ?thesis
      proof (cases "d - 1 = 0")
        case True
        with \<open>c = CHR ''}''\<close> shift show ?thesis by simp
      next
        case False
        with Cons.prems have "0 < d - 1" by simp
        from Cons.IH [OF this] \<open>c = CHR ''}''\<close> shift False show ?thesis
          by simp
      qed
    next
      case False
      with not_open Cons.IH [OF Cons.prems] Cons.prems shift show ?thesis
        by simp
    qed
  qed
qed

lemma from_first_brace_cases:
  "from_first_brace s = [] \<or> (\<exists>cs. from_first_brace s = CHR ''{'' # cs)"
proof (cases "from_first_brace s")
  case Nil
  then show ?thesis by simp
next
  case (Cons c cs)
  then have "dropWhile (\<lambda>c. c \<noteq> CHR ''{'') s \<noteq> []"
    by (simp add: from_first_brace_def)
  then have "\<not> hd (dropWhile (\<lambda>c. c \<noteq> CHR ''{'') s) \<noteq> CHR ''{''"
    by (rule hd_dropWhile)
  with Cons show ?thesis
    by (simp add: from_first_brace_def)
qed

lemma depth_returns_to_zero_iff:
  "depth_returns_to_zero s =
     (case from_first_brace s of [] \<Rightarrow> False | c # cs \<Rightarrow> closes_from 1 cs)"
proof -
  from from_first_brace_cases [of s] show ?thesis
  proof
    assume "from_first_brace s = []"
    then show ?thesis by (simp add: depth_returns_to_zero_def)
  next
    assume "\<exists>cs. from_first_brace s = CHR ''{'' # cs"
    then obtain cs where cs: "from_first_brace s = CHR ''{'' # cs" by blast
    have "closes_from 0 (CHR ''{'' # cs) = closes_from 1 cs"
      by simp
    have "depth_returns_to_zero s
        = (\<exists>k \<in> {1 .. length (CHR ''{'' # cs)}. brace_depth (take k (CHR ''{'' # cs)) = 0)"
      by (simp add: depth_returns_to_zero_def cs)
    also have "\<dots> = (\<exists>k \<in> {1 .. length cs}. 1 + brace_depth (take k cs) = 0)"
      (is "?L = ?R")
    proof
      assume ?L
      then obtain k where k: "1 \<le> k" "k \<le> Suc (length cs)"
          "brace_depth (take k (CHR ''{'' # cs)) = 0"
        by auto
      then obtain j where j: "k = Suc j" by (cases k) auto
      show ?R
      proof (cases j)
        case 0
        with k j show ?thesis by (simp add: brace_depth_Cons)
      next
        case (Suc i)
        with k j have "j \<in> {1 .. length cs}" "1 + brace_depth (take j cs) = 0"
          by (simp_all add: brace_depth_Cons)
        then show ?thesis by blast
      qed
    next
      assume ?R
      then obtain k where "k \<in> {1 .. length cs}" "1 + brace_depth (take k cs) = 0"
        by blast
      then have "Suc k \<in> {1 .. length (CHR ''{'' # cs)}"
          "brace_depth (take (Suc k) (CHR ''{'' # cs)) = 0"
        by (simp_all add: brace_depth_Cons)
      then show ?L by blast
    qed
    also have "\<dots> = closes_from 1 cs"
      by (simp add: closes_from_iff)
    finally show ?thesis by (simp add: cs)
  qed
qed

lemma filter_from_first_brace:
  "filter is_brace (from_first_brace s)
     = dropWhile (\<lambda>c. c \<noteq> CHR ''{'') (filter is_brace s)"
  unfolding from_first_brace_def
  by (induction s) (auto simp: is_brace_def)

lemma depth_returns_to_zero_filter:
  "depth_returns_to_zero s =
     (case dropWhile (\<lambda>c. c \<noteq> CHR ''{'') (filter is_brace s) of
        [] \<Rightarrow> False | c # cs \<Rightarrow> closes_from 1 cs)"
proof -
  from from_first_brace_cases [of s] show ?thesis
  proof
    assume e: "from_first_brace s = []"
    then have d: "dropWhile (\<lambda>c. c \<noteq> CHR ''{'') (filter is_brace s) = []"
      by (simp add: filter_from_first_brace [symmetric])
    show ?thesis
      unfolding depth_returns_to_zero_iff e d by simp
  next
    assume "\<exists>cs. from_first_brace s = CHR ''{'' # cs"
    then obtain cs where cs: "from_first_brace s = CHR ''{'' # cs" by blast
    then have "dropWhile (\<lambda>c. c \<noteq> CHR ''{'') (filter is_brace s)
        = CHR ''{'' # filter is_brace cs"
      using filter_from_first_brace [of s] by (simp add: is_brace_def)
    with cs show ?thesis
      by (simp add: depth_returns_to_zero_iff closes_from_filter)
  qed
qed

lemma depth_returns_to_zero_clean:
  "depth_returns_to_zero (clean_content s) = depth_returns_to_zero s"
  by (simp add: depth_returns_to_zero_filter filter_clean_content)

lemma decoder_input_never_closed:
  assumes "\<not> depth_returns_to_zero content"
  shows "decoder_input content = None"
proof (cases "CHR ''{'' \<in> set (clean_content content)")
  case False
  then show ?thesis
    by (simp add: decoder_input_def Let_def py_find_def find_from_absent)
next
  case True
  let ?c = "clean_content content"
  from assms have open_c: "\<not> depth_returns_to_zero ?c"
    by (simp add: depth_returns_to_zero_clean)
  have slice: "py_slice_from ?c (py_find ?c (CHR ''{'')) = from_first_brace ?c"
    using True by (simp add: py_slice_from_find from_first_brace_def)
  from True have "from_first_brace ?c \<noteq> []"
    by (auto simp: from_first_brace_def)
  with from_first_brace_cases [of ?c] obtain cs where cs: "from_first_brace ?c = CHR ''{'' # cs"
    by blast
  with open_c have "\<not> closes_from 1 cs"
    by (simp add: depth_returns_to_zero_iff)
  then have "brace_scan (from_first_brace ?c) (py_find ?c (CHR ''{'')) 0 (py_find ?c (CHR ''{''))
      = py_find ?c (CHR ''{'')"
    by (simp add: cs brace_scan_not_closed)
  then show ?thesis
    by (simp add: decoder_input_def Let_def slice)
qed

lemma no_brace_never_closed:
  assumes "CHR ''{'' \<notin> set content"
  shows "\<not> depth_returns_to_zero content"
proof -
  from assms have "from_first_brace content = []"
    by (auto simp: from_first_brace_def dropWhile_eq_Nil_conv)
  then show ?thesis
    by (simp add: depth_returns_to_zero_def)
qed

lemma parse_unified_response_no_input:
  assumes "decoder_input content = None"
  shows "parse_unified_response loads (Some content) movies = create_fallback_response movies"
  using assms
  by (simp add: parse_unified_response_def parse_try_decoder_input split: sum.splits)

section \<open>Properties of the quote repair\<close>

lemma py_rfind_last:
  assumes "c \<in> set s"
  shows "\<exists>pre post. s = pre @ c # post \<and> c \<notin> set post \<and> py_rfind s c = int (length pre)"
proof -
  from assms obtain pre post where s: "s = pre @ c # post" and post: "c \<notin> set post"
    by (auto dest: split_list_last)
  have "takeWhile (\<lambda>x. x \<noteq> c) (rev post @ c # rev pre)
      = rev post @ takeWhile (\<lambda>x. x \<noteq> c) (c # rev pre)"
    by (rule takeWhile_append2) (use post in auto)
  then have "takeWhile (\<lambda>x. x \<noteq> c) (rev s) = rev post"
    by (simp add: s)
  moreover have "c \<in> set (rev s)"
    using assms by simp
  ultimately have "find_from c (rev s) 0 = int (length post)"
    by (simp add: find_from_present)
  then have "py_rfind s c = int (length pre)"
    by (simp add: py_rfind_def s)
  with s post show ?thesis by blast
qed

lemma py_count_str_replace_other:
  assumes "c \<notin> set old" and "c \<notin> set new"
  shows "py_count (str_replace old new s) c = py_count s c"
proof -
  from assms have "\<forall>x \<in> set old. \<not> x = c" and "\<forall>x \<in> set new. \<not> x = c"
    by auto
  then have "filter (\<lambda>x. x = c) (str_replace old new s) = filter (\<lambda>x. x = c) s"
    by (rule filter_str_replace)
  then show ?thesis
    by (simp add: py_count_def)
qed

lemma repair_json_str_even_quotes:
  "py_count (repair_json_str s) (CHR 0x22) mod 2 = 0"
proof -
  let ?n = "str_replace [CHR 0x0D] [] (str_replace [CHR 0x0A] '' '' s)"
  show ?thesis
  proof (cases "py_count ?n (CHR 0x22) mod 2 \<noteq> 0")
    case False
    then show ?thesis
      by (simp add: repair_json_str_def Let_def)
  next
    case True
    have "CHR 0x22 \<in> set ?n"
    proof (rule ccontr)
      assume "CHR 0x22 \<notin> set ?n"
      then have "filter (\<lambda>x. x = CHR 0x22) ?n = []"
        by (auto simp: filter_empty_conv)
      with True show False
        by (simp add: py_count_def)
    qed
    from py_rfind_last [OF this] obtain pre post where
      n: "?n = pre @ CHR 0x22 # post" and post: "CHR 0x22 \<notin> set post" and
      r: "py_rfind ?n (CHR 0x22) = int (length pre)"
      by blast
    have cut: "py_slice_to ?n (int (length pre)) = pre"
      by (simp add: py_slice_to_def py_bound_def n)
    from post have "filter (\<lambda>x. x = CHR 0x22) post = []"
      by (auto simp: filter_empty_conv)
    then have "py_count ?n (CHR 0x22) = py_count pre (CHR 0x22) + 1"
      by (simp add: n py_count_def)
    with True have even_pre: "py_count pre (CHR 0x22) mod 2 = 0"
      by presburger
    have "py_count (pre @ replicate k (CHR ''}'')) (CHR 0x22) = py_count pre (CHR 0x22)" for k
      by (simp add: py_count_def)
    with even_pre have "py_count (pre @ replicate k (CHR ''}'')) (CHR 0x22) mod 2 = 0" for k
      by simp
    then show ?thesis
      using True unfolding repair_json_str_def Let_def r cut by simp
  qed
qed

section \<open>Properties of the loop over the entries\<close>

lemma collect_books_skip_head:
  "lacks_title_or_author entry \<Longrightarrow> collect_books (entry # rest) = collect_books rest"
  by (cases entry) (auto simp: lacks_title_or_author_def dict_get_def)

lemma collect_books_skip:
  "lacks_title_or_author entry
   \<Longrightarrow> collect_books (before @ entry # rest) = collect_books (before @ rest)"
proof (induction before)
  case Nil
  then show ?case by (simp add: collect_books_skip_head del: collect_books.simps)
next
  case (Cons b before)
  then show ?case by (simp cong: if_cong)
qed

lemma collect_books_all_skipped:
  "\<forall>entry \<in> set entries. lacks_title_or_author entry \<Longrightarrow> collect_books entries = Inr []"
proof (induction entries)
  case Nil
  show ?case by simp
next
  case (Cons e es)
  then show ?case
    by (simp add: collect_books_skip_head del: collect_books.simps)
qed

lemma build_response_entries:
  assumes "map_of obj ''unified_recommendations'' = Some (PList entries)"
    and "map_of obj' ''unified_recommendations'' = Some (PList entries')"
    and "collect_books entries = collect_books entries'"
    and "map_of obj ''taste_profile'' = map_of obj' ''taste_profile''"
  shows "build_response (PDict obj) movies = build_response (PDict obj') movies"
  using assms by (simp add: build_response_def dict_get_def cong: if_cong)

lemma build_response_no_books:
  assumes "map_of obj ''unified_recommendations'' = Some (PList entries)"
    and "collect_books entries = Inr []"
  shows "build_response (PDict obj) movies = create_fallback_response movies"
  using assms by (simp add: build_response_def dict_get_def)

lemma parse_unified_response_decoded:
  assumes "decoder_input content = Some json_str" and "loads json_str = Some data"
  shows "parse_unified_response loads (Some content) movies =
     (case build_response data movies of
        Inl e \<Rightarrow> create_fallback_response movies
      | Inr response \<Rightarrow> Inr response)"
  using assms by (simp add: parse_unified_response_def parse_try_decoder_input)

section \<open>Properties of the taste profile construction\<close>

lemma dict_get_absent: "map_of d k = None \<Longrightarrow> dict_get d k dflt = dflt"
  by (simp add: dict_get_def)

lemma dict_get_present: "map_of d k = Some v \<Longrightarrow> dict_get d k dflt = v"
  by (simp add: dict_get_def)

lemma is_str_dict_get:
  "is_str (dict_get d k (PStr [])) = (\<forall>v. map_of d k = Some v \<longrightarrow> is_str v)"
  by (cases "map_of d k") (simp_all add: dict_get_def)

lemma is_str_list_dict_get:
  "is_str_list (dict_get d k (PList [])) = (\<forall>v. map_of d k = Some v \<longrightarrow> is_str_list v)"
  by (cases "map_of d k") (simp_all add: dict_get_def)

lemma is_number_dict_get:
  "is_number (dict_get d k (PFloat f)) = (\<forall>v. map_of d k = Some v \<longrightarrow> is_number v)"
  by (cases "map_of d k") (simp_all add: dict_get_def)

lemma build_response_with_books:
  assumes "map_of obj ''unified_recommendations'' = Some (PList entries)"
    and "collect_books entries = Inr bs" and "bs \<noteq> []"
    and "create_movie_summary movies (PDict []) = Inr summary"
  shows "build_response (PDict obj) movies =
     and_then (py_get (dict_get obj ''taste_profile'' (PDict [])) ''themes'' (PList [])) (\<lambda>th.
     and_then (py_get (dict_get obj ''taste_profile'' (PDict [])) ''narrative_style'' (PStr [])) (\<lambda>ns.
     and_then (py_get (dict_get obj ''taste_profile'' (PDict [])) ''emotional_tone'' (PStr [])) (\<lambda>et.
     and_then (py_get (dict_get obj ''taste_profile'' (PDict [])) ''genre_fusion'' (PStr [])) (\<lambda>gf.
     and_then (py_get (dict_get obj ''taste_profile'' (PDict [])) ''character_preferences'' (PStr [])) (\<lambda>cp.
     and_then (py_get (dict_get obj ''taste_profile'' (PDict [])) ''artistic_sensibilities'' (PStr [])) (\<lambda>ar.
     and_then (py_get (dict_get obj ''taste_profile'' (PDict [])) ''confidence_score'' (PFloat (Finite 0.7))) (\<lambda>cs.
     and_then (new_TasteProfile th ns et gf cp ar cs) (\<lambda>profile.
     Inr [\<lparr>movie = summary, books = bs, taste_profile = profile\<rparr>]))))))))"
proof -
  have "create_movie_summary movies tpd = Inr summary" for tpd
    using assms(4) create_movie_summary_ignores_profile [of movies tpd "PDict []"] by simp
  with assms(1-3) show ?thesis
    by (simp add: build_response_def dict_get_present)
qed

lemma build_response_profile_of_dict:
  assumes "map_of obj ''unified_recommendations'' = Some (PList entries)"
    and "collect_books entries = Inr bs" and "bs \<noteq> []"
    and "create_movie_summary movies (PDict []) = Inr summary"
    and "dict_get obj ''taste_profile'' (PDict []) = PDict tp"
    and "\<forall>v. map_of tp ''themes'' = Some v \<longrightarrow> is_str_list v"
    and "\<forall>v. map_of tp ''narrative_style'' = Some v \<longrightarrow> is_str v"
    and "\<forall>v. map_of tp ''emotional_tone'' = Some v \<longrightarrow> is_str v"
    and "\<forall>v. map_of tp ''genre_fusion'' = Some v \<longrightarrow> is_str v"
    and "\<forall>v. map_of tp ''character_preferences'' = Some v \<longrightarrow> is_str v"
    and "\<forall>v. map_of tp ''artistic_sensibilities'' = Some v \<longrightarrow> is_str v"
    and "\<forall>v. map_of tp ''confidence_score'' = Some v \<longrightarrow> is_number v"
  shows "build_response (PDict obj) movies =
     Inr [\<lparr>movie = summary, books = bs,
           taste_profile =
             \<lparr>themes = dict_get tp ''themes'' (PList []),
              narrative_style = dict_get tp ''narrative_style'' (PStr []),
              emotional_tone = dict_get tp ''emotional_tone'' (PStr []),
              genre_fusion = dict_get tp ''genre_fusion'' (PStr []),
              character_preferences = dict_get tp ''character_preferences'' (PStr []),
              artistic_sensibilities = dict_get tp ''artistic_sensibilities'' (PStr []),
              confidence_score = dict_get tp ''confidence_score'' (PFloat (Finite 0.7))\<rparr>\<rparr>]"
proof -
  have "valid_TasteProfile
     \<lparr>themes = dict_get tp ''themes'' (PList []),
      narrative_style = dict_get tp ''narrative_style'' (PStr []),
      emotional_tone = dict_get tp ''emotional_tone'' (PStr []),
      genre_fusion = dict_get tp ''genre_fusion'' (PStr []),
      character_preferences = dict_get tp ''character_preferences'' (PStr []),
      artistic_sensibilities = dict_get tp ''artistic_sensibilities'' (PStr []),
      confidence_score = dict_get tp ''confidence_score'' (PFloat (Finite 0.7))\<rparr>"
    unfolding valid_TasteProfile_def
    using assms(6-12)
    by (simp add: is_str_dict_get is_str_list_dict_get is_number_dict_get)
  then show ?thesis
    by (simp add: build_response_with_books [OF assms(1-4)] assms(5) new_TasteProfile_def)
qed

section \<open>Properties of the two handlers\<close>

lemma analyze_taste_profile_failure:
  "analyze_try client loads movies = Inl e
   \<Longrightarrow> analyze_taste_profile client loads movies preferences = analysis_fallback"
  by (simp add: analyze_taste_profile_def)

lemma generate_recommendations_client_raises:
  "client (generation_request books_count movies preferences) = Inl e
   \<Longrightarrow> generate_recommendations client loads books_count movies preferences
       = create_fallback_response movies"
  by (simp add: generate_recommendations_def)

section \<open>Where the result of the generation comes from\<close>







section \<open>The claims\<close>




text \<open>
  C2, as the spec states it, does not hold. The sample reply cut off inside its last
  string value has an odd number of double quotes and no closing brace after it (it has
  none at all). The parser does not close the object: it hands nothing to the decoder
  and returns the fallback response with its three fixed books, even with a decoder
  that would return the complete object for any text.
\<close>

theorem truncated_reply_is_not_recovered:
  "py_count truncated_reply (CHR 0x22) mod 2 = 1
   \<and> CHR ''}'' \<notin> set truncated_reply
   \<and> decoder_input truncated_reply = None
   \<and> parse_unified_response (\<lambda>s. Some sample_data) (Some truncated_reply) [''Inception'']
       = create_fallback_response [''Inception'']
   \<and> map_sum id (map (map title \<circ> books))
         (parse_unified_response (\<lambda>s. Some sample_data) (Some truncated_reply) [''Inception''])
       = Inr [[PStr ''The Seven Husbands of Evelyn Hugo'', PStr ''Klara and the Sun'',
               PStr ''The Midnight Library'']]"
proof -
  have odd_quotes: "py_count truncated_reply (CHR 0x22) mod 2 = 1"
    by (simp add: py_count_def truncated_reply_def)
  have no_close: "CHR ''}'' \<notin> set truncated_reply"
    by (simp add: truncated_reply_def)
  have "\<not> depth_returns_to_zero truncated_reply"
    by (simp add: depth_returns_to_zero_iff from_first_brace_def truncated_reply_def)
  then have none: "decoder_input truncated_reply = None"
    by (rule decoder_input_never_closed)
  then have fallback:
    "parse_unified_response (\<lambda>s. Some sample_data) (Some truncated_reply) [''Inception'']
       = create_fallback_response [''Inception'']"
    by (rule parse_unified_response_no_input)
  have "map_sum id (map (map title \<circ> books)) (create_fallback_response [''Inception''])
       = Inr [[PStr ''The Seven Husbands of Evelyn Hugo'', PStr ''Klara and the Sun'',
               PStr ''The Midnight Library'']]"
    by (simp add: create_fallback_response_def fallback_books_def fallback_taste_profile_def
        new_BookRecommendation_def new_TasteProfile_def valid_BookRecommendation_def
        valid_TasteProfile_def create_movie_summary_def)
  with odd_quotes no_close none fallback show ?thesis
    by simp
qed

text \<open>
  C2, amended: for every reply text with an odd number of double quotes (a text that
  ends inside a string value) whose object is never closed (the brace depth counted
  from the first opening brace never returns to zero), the parser hands nothing to the
  decoder and returns the fallback response. The quote repair is reached only for a
  reply whose object is closed, and the text it produces always has an even number of
  double quotes.
\<close>

theorem truncated_string_routes_to_fallback:
  assumes "py_count content (CHR 0x22) mod 2 = 1"
    and "\<not> depth_returns_to_zero content"
  shows "decoder_input content = None
    \<and> parse_unified_response loads (Some content) movies = create_fallback_response movies
    \<and> (\<forall>other. decoder_input other \<noteq> None \<longrightarrow> depth_returns_to_zero other)
    \<and> (\<forall>js. py_count (repair_json_str js) (CHR 0x22) mod 2 = 0)"
proof (intro conjI allI impI)
  show none: "decoder_input content = None"
    using assms(2) by (rule decoder_input_never_closed)
  then show "parse_unified_response loads (Some content) movies
      = create_fallback_response movies"
    by (rule parse_unified_response_no_input)
  show "depth_returns_to_zero other" if "decoder_input other \<noteq> None" for other
  proof (rule ccontr)
    assume "\<not> depth_returns_to_zero other"
    then have "decoder_input other = None"
      by (rule decoder_input_never_closed)
    with that show False by simp
  qed
  show "py_count (repair_json_str js) (CHR 0x22) mod 2 = 0" for js
    by (rule repair_json_str_even_quotes)
qed

theorem truncated_string_routes_to_fallback_witness:
  "py_count truncated_reply (CHR 0x22) mod 2 = 1
   \<and> \<not> depth_returns_to_zero truncated_reply
   \<and> decoder_input truncated_reply = None
   \<and> parse_unified_response (\<lambda>s. Some sample_data) (Some truncated_reply) [''Inception'']
       = create_fallback_response [''Inception'']"
proof -
  have a: "py_count truncated_reply (CHR 0x22) mod 2 = 1"
    by (simp add: py_count_def truncated_reply_def)
  have b: "\<not> depth_returns_to_zero truncated_reply"
    by (simp add: depth_returns_to_zero_iff from_first_brace_def truncated_reply_def)
  show ?thesis
    using a b truncated_string_routes_to_fallback
      [OF a b, of "\<lambda>s. Some sample_data" "[''Inception'']"]
    by simp
qed

text \<open>
  C3: for every reply text without an opening brace, and for every reply text in which
  the brace depth counted from the first opening brace never returns to zero, the
  parser hands nothing to the decoder and returns the fallback response, whatever the
  decoder and the movie list are.
\<close>

theorem parser_rejects_unclosed_object:
  "(CHR ''{'' \<notin> set content \<longrightarrow>
      decoder_input content = None
      \<and> parse_unified_response loads (Some content) movies = create_fallback_response movies)
   \<and> (\<not> depth_returns_to_zero content \<longrightarrow>
      decoder_input content = None
      \<and> parse_unified_response loads (Some content) movies = create_fallback_response movies)"
  using no_brace_never_closed [of content] decoder_input_never_closed [of content]
    parse_unified_response_no_input [of content loads movies]
  by blast

theorem parser_rejects_unclosed_object_witness:
  "CHR ''{'' \<notin> set ''Sorry, I cannot help.''
   \<and> parse_unified_response sample_loads (Some ''Sorry, I cannot help.'') [''Inception'']
       = create_fallback_response [''Inception'']
   \<and> \<not> depth_returns_to_zero no_author_reply_open
   \<and> parse_unified_response (\<lambda>s. Some no_author_data) (Some no_author_reply_open)
         [''Inception'']
       = create_fallback_response [''Inception'']"
proof -
  have a: "CHR ''{'' \<notin> set ''Sorry, I cannot help.''"
    by simp
  have b: "\<not> depth_returns_to_zero no_author_reply_open"
    by (simp add: depth_returns_to_zero_iff from_first_brace_def no_author_reply_open_def)
  show ?thesis
    using a b
      parser_rejects_unclosed_object
        [of "''Sorry, I cannot help.''" sample_loads "[''Inception'']"]
      parser_rejects_unclosed_object
        [of no_author_reply_open "\<lambda>s. Some no_author_data" "[''Inception'']"]
    by simp
qed

text \<open>
  C4: for a one-element list \<open>[m]\<close> the summary is "Based on your interest in m"; for a
  two-element list \<open>[a, b]\<close> it is "Based on your taste for a and b"; for a list of three
  or more titles it is "Based on your taste profile from " followed by all titles but
  the last joined with ", ", then ", and " and the last title. The second argument has
  no influence.
\<close>

theorem create_movie_summary_by_length:
  "create_movie_summary [m] tp = Inr (''Based on your interest in '' @ m)
   \<and> create_movie_summary [a, b] tp = Inr (''Based on your taste for '' @ a @ '' and '' @ b)
   \<and> (3 \<le> length movies \<longrightarrow>
        create_movie_summary movies tp =
          Inr (''Based on your taste profile from '' @ str_join '', '' (butlast movies)
               @ '', and '' @ last movies))"
proof -
  have three: "create_movie_summary movies tp =
      Inr (''Based on your taste profile from '' @ str_join '', '' (butlast movies)
           @ '', and '' @ last movies)" if "3 \<le> length movies"
  proof -
    from that have "movies \<noteq> []" by auto
    with that show ?thesis
      by (simp add: create_movie_summary_def py_slice_to_minus_one py_index_minus_one)
  qed
  show ?thesis
    using three by (simp add: create_movie_summary_def)
qed

theorem create_movie_summary_by_length_witness:
  "create_movie_summary [''Inception''] (PDict []) = Inr ''Based on your interest in Inception''
   \<and> create_movie_summary [''A'', ''B''] (PDict []) = Inr ''Based on your taste for A and B''
   \<and> create_movie_summary [''A'', ''B'', ''C''] (PDict [])
       = Inr ''Based on your taste profile from A, B, and C''"
  using create_movie_summary_by_length
    [of "''Inception''" "PDict []" "''A''" "''B''" "[''A'', ''B'', ''C'']"]
  by simp

text \<open>
  C5, as the spec states it (the summary of a two-element list is "Based on your
  interest in m1 and m2"), does not hold: the code writes "Based on your taste for".
\<close>

theorem two_movie_summary_counterexample:
  "create_movie_summary [''A'', ''B''] (PDict []) \<noteq> Inr ''Based on your interest in A and B''"
  by (simp add: create_movie_summary_def)

text \<open>
  C5, amended: for every two-element movie list \<open>[m1, m2]\<close> the summary is "Based on your
  taste for m1 and m2"; and for every movie list the summary depends only on the movie
  list: the function ignores its second argument, and the summary of every response
  that \<open>generate_recommendations\<close> returns is the summary of its movie list, whatever
  the reply was.
\<close>

theorem movie_summary_of_two_and_independence:
  "create_movie_summary [m1, m2] tp
     = Inr (''Based on your taste for '' @ m1 @ '' and '' @ m2)
   \<and> create_movie_summary movies tp = create_movie_summary movies tp'
   \<and> (generate_recommendations client loads books_count movies preferences = Inr rs
        \<longrightarrow> (\<exists>r. rs = [r] \<and> create_movie_summary movies tp = Inr (movie r)))"
proof -
  have "\<exists>r. rs = [r] \<and> create_movie_summary movies tp = Inr (movie r)"
    if "generate_recommendations client loads books_count movies preferences = Inr rs"
  proof -
    from that have "usable movies rs"
      by (rule generate_recommendations_usable)
    then show ?thesis
      using create_movie_summary_ignores_profile [of movies tp "PDict []"]
      by (auto simp: usable_def)
  qed
  then show ?thesis
    using create_movie_summary_ignores_profile [of movies tp tp']
    by (simp add: create_movie_summary_def)
qed

theorem movie_summary_of_two_and_independence_witness:
  "create_movie_summary [''A'', ''B''] sample_data = Inr ''Based on your taste for A and B''
   \<and> create_movie_summary [''A'', ''B''] sample_data
       = create_movie_summary [''A'', ''B''] (PDict [])
   \<and> (\<exists>r. generate_recommendations (replying sample_reply) sample_loads ''3''
              [''A'', ''B''] None = Inr [r]
          \<and> movie r = ''Based on your taste for A and B'')"
proof -
  have "\<not> isl (generate_recommendations (replying sample_reply) sample_loads ''3''
                 [''A'', ''B''] None)"
    by code_simp
  then obtain rs where
    rs: "generate_recommendations (replying sample_reply) sample_loads ''3''
           [''A'', ''B''] None = Inr rs"
    by (cases "generate_recommendations (replying sample_reply) sample_loads ''3''
                 [''A'', ''B''] None") simp_all
  show ?thesis
    using movie_summary_of_two_and_independence
      [of "''A''" "''B''" sample_data "[''A'', ''B'']" "PDict []"
          "replying sample_reply" sample_loads "''3''" None rs] rs
    by auto
qed

text \<open>
  C6: with only the mood set, the prompt is the prompt without preferences with one
  block inserted in front of the final instruction, the block being the heading
  "CONSTRAINTS:" and the single bullet line "Mood alignment: " followed by the mood.
  With no field set the prompt is the prompt without preferences: there is no block.
  In general the bullet lines are those of the fields that are set, in the order mood,
  pace, favored genres, avoided genres, the genres joined with ", ".
\<close>

theorem constraints_block_rendering:
  "(mood p = Some m \<and> m \<noteq> [] \<and> \<not> is_set (pace p) \<and> \<not> is_set (genre_preferences p)
      \<and> \<not> is_set (genre_blocklist p) \<longrightarrow>
      build_unified_prompt books_count movies (Some p) =
        prompt_base books_count movies
        @ nl @ nl @ ''CONSTRAINTS:'' @ nl @ bullet @ '' Mood alignment: '' @ m
        @ reply_instruction)
   \<and> (\<not> is_set (mood p) \<and> \<not> is_set (pace p) \<and> \<not> is_set (genre_preferences p)
      \<and> \<not> is_set (genre_blocklist p) \<longrightarrow>
      build_unified_prompt books_count movies (Some p) =
        prompt_base books_count movies @ reply_instruction)
   \<and> build_unified_prompt books_count movies None =
        prompt_base books_count movies @ reply_instruction
   \<and> (mood p = Some m \<and> m \<noteq> [] \<and> pace p = Some pc \<and> pc \<noteq> []
      \<and> genre_preferences p = Some favored \<and> favored \<noteq> []
      \<and> genre_blocklist p = Some avoided \<and> avoided \<noteq> [] \<longrightarrow>
      build_unified_prompt books_count movies (Some p) =
        prompt_base books_count movies
        @ nl @ nl @ ''CONSTRAINTS:''
        @ nl @ bullet @ '' Mood alignment: '' @ m
        @ nl @ bullet @ '' Pacing: '' @ pc
        @ nl @ bullet @ '' Favor: '' @ str_join '', '' favored
        @ nl @ bullet @ '' Avoid: '' @ str_join '', '' avoided
        @ reply_instruction)
   \<and> constraint_list_of p =
        (if is_set (mood p) then [''Mood alignment: '' @ the (mood p)] else [])
        @ (if is_set (pace p) then [''Pacing: '' @ the (pace p)] else [])
        @ (if is_set (genre_preferences p)
           then [''Favor: '' @ str_join '', '' (the (genre_preferences p))] else [])
        @ (if is_set (genre_blocklist p)
           then [''Avoid: '' @ str_join '', '' (the (genre_blocklist p))] else [])
   \<and> build_unified_prompt books_count movies (Some p) =
        prompt_base books_count movies
        @ (if constraint_list_of p = [] then []
           else nl @ nl @ ''CONSTRAINTS:'' @ nl @ bullet @ '' ''
                @ str_join (nl @ bullet @ '' '') (constraint_list_of p))
        @ reply_instruction"
proof -
  have lines: "constraint_list_of p =
        (if is_set (mood p) then [''Mood alignment: '' @ the (mood p)] else [])
        @ (if is_set (pace p) then [''Pacing: '' @ the (pace p)] else [])
        @ (if is_set (genre_preferences p)
           then [''Favor: '' @ str_join '', '' (the (genre_preferences p))] else [])
        @ (if is_set (genre_blocklist p)
           then [''Avoid: '' @ str_join '', '' (the (genre_blocklist p))] else [])"
    by (simp add: constraint_list_of_def is_set_def split: option.splits)
  have block: "build_unified_prompt books_count movies (Some p) =
        prompt_base books_count movies
        @ (if constraint_list_of p = [] then []
           else nl @ nl @ ''CONSTRAINTS:'' @ nl @ bullet @ '' ''
                @ str_join (nl @ bullet @ '' '') (constraint_list_of p))
        @ reply_instruction"
    by (simp add: build_unified_prompt_def Let_def)
  have none: "build_unified_prompt books_count movies None =
        prompt_base books_count movies @ reply_instruction"
    by (simp add: build_unified_prompt_def)
  show ?thesis
    unfolding block
    by (intro conjI impI none lines) (simp_all add: lines is_set_def)
qed

theorem constraints_block_rendering_witness:
  "build_unified_prompt ''3'' [''Inception'']
      (Some \<lparr>mood = Some ''dark'', pace = None, genre_preferences = None,
             genre_blocklist = None\<rparr>) =
     prompt_base ''3'' [''Inception'']
     @ nl @ nl @ ''CONSTRAINTS:'' @ nl @ bullet @ '' Mood alignment: dark''
     @ reply_instruction
   \<and> build_unified_prompt ''3'' [''Inception'']
      (Some \<lparr>mood = None, pace = Some [], genre_preferences = None,
             genre_blocklist = Some []\<rparr>) =
     build_unified_prompt ''3'' [''Inception''] None
   \<and> build_unified_prompt ''3'' [''Inception'']
      (Some \<lparr>mood = Some ''dark'', pace = Some ''slow'',
             genre_preferences = Some [''noir'', ''science fiction''],
             genre_blocklist = Some [''romance'']\<rparr>) =
     prompt_base ''3'' [''Inception'']
     @ nl @ nl @ ''CONSTRAINTS:''
     @ nl @ bullet @ '' Mood alignment: dark''
     @ nl @ bullet @ '' Pacing: slow''
     @ nl @ bullet @ '' Favor: noir, science fiction''
     @ nl @ bullet @ '' Avoid: romance''
     @ reply_instruction"
  using constraints_block_rendering
      [where p = "\<lparr>mood = Some ''dark'', pace = None, genre_preferences = None,
                    genre_blocklist = None\<rparr>" and m = "''dark''"
         and books_count = "''3''" and movies = "[''Inception'']"]
    constraints_block_rendering
      [where p = "\<lparr>mood = None, pace = Some [], genre_preferences = None,
                    genre_blocklist = Some []\<rparr>"
         and books_count = "''3''" and movies = "[''Inception'']"]
    constraints_block_rendering
      [where p = "\<lparr>mood = Some ''dark'', pace = Some ''slow'',
                    genre_preferences = Some [''noir'', ''science fiction''],
                    genre_blocklist = Some [''romance'']\<rparr>"
         and m = "''dark''" and pc = "''slow''" and favored = "[''noir'', ''science fiction'']"
         and avoided = "[''romance'']"
         and books_count = "''3''" and movies = "[''Inception'']"]
  by (simp add: is_set_def)

text \<open>
  C7: an entry of \<^verbatim>\<open>unified_recommendations\<close> that lacks its title or its author is
  skipped without an error: the loop over the entries, and with it the whole response,
  is the same as without that entry. When every entry lacks its title or its author
  (for example the only entry has no author), the parser returns the fallback response.
  No response the parser returns has an empty book list.
\<close>

theorem entries_without_title_or_author:
  "(lacks_title_or_author entry \<longrightarrow>
      collect_books (before @ entry # rest) = collect_books (before @ rest))
   \<and> (lacks_title_or_author entry
        \<and> map_of obj ''unified_recommendations'' = Some (PList (before @ entry # rest)) \<longrightarrow>
      build_response (PDict obj) movies
        = build_response (PDict ((''unified_recommendations'', PList (before @ rest)) # obj))
            movies)
   \<and> (decoder_input content = Some json_str \<and> loads json_str = Some (PDict obj)
        \<and> map_of obj ''unified_recommendations'' = Some (PList entries)
        \<and> (\<forall>e \<in> set entries. lacks_title_or_author e) \<longrightarrow>
      parse_unified_response loads (Some content) movies = create_fallback_response movies)
   \<and> (parse_unified_response loads reply movies = Inr rs \<longrightarrow> (\<forall>r \<in> set rs. books r \<noteq> []))"
proof (intro conjI impI)
  assume "lacks_title_or_author entry"
  then show "collect_books (before @ entry # rest) = collect_books (before @ rest)"
    by (rule collect_books_skip)
next
  assume a: "lacks_title_or_author entry
      \<and> map_of obj ''unified_recommendations'' = Some (PList (before @ entry # rest))"
  then have "collect_books (before @ entry # rest) = collect_books (before @ rest)"
    by (simp add: collect_books_skip)
  with a show "build_response (PDict obj) movies
      = build_response (PDict ((''unified_recommendations'', PList (before @ rest)) # obj))
          movies"
    by (intro build_response_entries [where entries = "before @ entry # rest"
          and entries' = "before @ rest"]) simp_all
next
  assume a: "decoder_input content = Some json_str \<and> loads json_str = Some (PDict obj)
      \<and> map_of obj ''unified_recommendations'' = Some (PList entries)
      \<and> (\<forall>e \<in> set entries. lacks_title_or_author e)"
  then have "collect_books entries = Inr []"
    by (simp add: collect_books_all_skipped)
  with a have "build_response (PDict obj) movies = create_fallback_response movies"
    by (simp add: build_response_no_books)
  with a show "parse_unified_response loads (Some content) movies
      = create_fallback_response movies"
    by (simp add: parse_unified_response_decoded split: sum.splits)
next
  assume "parse_unified_response loads reply movies = Inr rs"
  then have "usable movies rs"
    by (rule parse_unified_response_usable)
  then show "\<forall>r \<in> set rs. books r \<noteq> []"
    by (auto simp: usable_def)
qed

theorem entries_without_title_or_author_witness:
  "collect_books [PDict [(''title'', PStr ''Dune'')],
                  PDict [(''title'', PStr ''Solaris''), (''author'', PStr ''Stanislaw Lem'')]]
     = collect_books [PDict [(''title'', PStr ''Solaris''), (''author'', PStr ''Stanislaw Lem'')]]
   \<and> parse_unified_response sample_loads (Some no_author_reply) [''Inception'']
       = create_fallback_response [''Inception'']
   \<and> map_sum id (map (map title \<circ> books))
         (parse_unified_response sample_loads (Some mixed_reply) [''Inception''])
       = Inr [[PStr ''Solaris'']]"
proof -
  have lacks: "lacks_title_or_author (PDict [(''title'', PStr ''Dune'')])"
    by (simp add: lacks_title_or_author_def)
  have input: "decoder_input no_author_reply = Some no_author_reply"
    by code_simp
  have decoded: "sample_loads no_author_reply
      = Some (PDict [(''unified_recommendations'', PList [PDict [(''title'', PStr ''Dune'')]])])"
    by code_simp
  have third: "map_sum id (map (map title \<circ> books))
         (parse_unified_response sample_loads (Some mixed_reply) [''Inception''])
       = Inr [[PStr ''Solaris'']]"
    by code_simp
  show ?thesis
    using lacks input decoded third
      entries_without_title_or_author
        [where entry = "PDict [(''title'', PStr ''Dune'')]" and before = "[]"
           and rest = "[PDict [(''title'', PStr ''Solaris''), (''author'', PStr ''Stanislaw Lem'')]]"
           and content = no_author_reply and json_str = no_author_reply
           and loads = sample_loads
           and obj = "[(''unified_recommendations'', PList [PDict [(''title'', PStr ''Dune'')]])]"
           and entries = "[PDict [(''title'', PStr ''Dune'')]]"
           and movies = "[''Inception'']"]
    by simp
qed

text \<open>
  C8, as the spec states it (every missing field is defaulted to an empty string), does
  not hold for \<^verbatim>\<open>themes\<close>: the sample reply has no taste profile, it is parsed
  successfully, and the \<^verbatim>\<open>themes\<close> of the result is the empty list, not the empty string.
\<close>

theorem missing_themes_default_counterexample:
  "map_sum id (map (themes \<circ> taste_profile))
     (parse_unified_response sample_loads (Some sample_reply) [''Inception''])
     = Inr [PList []]
   \<and> map_sum id (map (themes \<circ> taste_profile))
     (parse_unified_response sample_loads (Some sample_reply) [''Inception''])
     \<noteq> Inr [PStr []]"
  by code_simp

text \<open>
  C8, amended: for every successfully decoded reply object with at least one valid
  book, the taste profile is built from the \<^verbatim>\<open>taste_profile\<close> sub-object when present:
  each field is the sub-object's value when the key is present and its default when
  the key is missing, the default being the empty list for \<^verbatim>\<open>themes\<close>, the empty string
  for the five text fields and 0.7 for \<^verbatim>\<open>confidence_score\<close>. Only the fields that are
  present have to fit their types, so a missing field is never an error. When the
  sub-object is absent entirely, all fields take these defaults and parsing succeeds.
\<close>

theorem taste_profile_defaults:
  assumes "decoder_input content = Some json_str" and "loads json_str = Some (PDict obj)"
    and "map_of obj ''unified_recommendations'' = Some (PList entries)"
    and "collect_books entries = Inr bs" and "bs \<noteq> []"
    and "create_movie_summary movies (PDict []) = Inr summary"
  shows
   "(map_of obj ''taste_profile'' = None \<longrightarrow>
       parse_unified_response loads (Some content) movies =
         Inr [\<lparr>movie = summary, books = bs,
               taste_profile =
                 \<lparr>themes = PList [], narrative_style = PStr [], emotional_tone = PStr [],
                  genre_fusion = PStr [], character_preferences = PStr [],
                  artistic_sensibilities = PStr [],
                  confidence_score = PFloat (Finite 0.7)\<rparr>\<rparr>])
    \<and> (map_of obj ''taste_profile'' = Some (PDict tp)
        \<and> (\<forall>v. map_of tp ''themes'' = Some v \<longrightarrow> is_str_list v)
        \<and> (\<forall>v. map_of tp ''narrative_style'' = Some v \<longrightarrow> is_str v)
        \<and> (\<forall>v. map_of tp ''emotional_tone'' = Some v \<longrightarrow> is_str v)
        \<and> (\<forall>v. map_of tp ''genre_fusion'' = Some v \<longrightarrow> is_str v)
        \<and> (\<forall>v. map_of tp ''character_preferences'' = Some v \<longrightarrow> is_str v)
        \<and> (\<forall>v. map_of tp ''artistic_sensibilities'' = Some v \<longrightarrow> is_str v)
        \<and> (\<forall>v. map_of tp ''confidence_score'' = Some v \<longrightarrow> is_number v) \<longrightarrow>
       parse_unified_response loads (Some content) movies =
         Inr [\<lparr>movie = summary, books = bs,
               taste_profile =
                 \<lparr>themes = dict_get tp ''themes'' (PList []),
                  narrative_style = dict_get tp ''narrative_style'' (PStr []),
                  emotional_tone = dict_get tp ''emotional_tone'' (PStr []),
                  genre_fusion = dict_get tp ''genre_fusion'' (PStr []),
                  character_preferences = dict_get tp ''character_preferences'' (PStr []),
                  artistic_sensibilities = dict_get tp ''artistic_sensibilities'' (PStr []),
                  confidence_score =
                    dict_get tp ''confidence_score'' (PFloat (Finite 0.7))\<rparr>\<rparr>])
    \<and> (\<forall>k dflt. map_of tp k = None \<longrightarrow> dict_get tp k dflt = dflt)
    \<and> (\<forall>k v dflt. map_of tp k = Some v \<longrightarrow> dict_get tp k dflt = v)"
proof (intro conjI impI allI)
  assume "map_of obj ''taste_profile'' = None"
  then have "dict_get obj ''taste_profile'' (PDict []) = PDict []"
    by (rule dict_get_absent)
  from build_response_profile_of_dict [OF assms(3-6) this]
  have "build_response (PDict obj) movies =
         Inr [\<lparr>movie = summary, books = bs,
               taste_profile =
                 \<lparr>themes = PList [], narrative_style = PStr [], emotional_tone = PStr [],
                  genre_fusion = PStr [], character_preferences = PStr [],
                  artistic_sensibilities = PStr [],
                  confidence_score = PFloat (Finite 0.7)\<rparr>\<rparr>]"
    by (simp add: dict_get_def)
  then show "parse_unified_response loads (Some content) movies =
         Inr [\<lparr>movie = summary, books = bs,
               taste_profile =
                 \<lparr>themes = PList [], narrative_style = PStr [], emotional_tone = PStr [],
                  genre_fusion = PStr [], character_preferences = PStr [],
                  artistic_sensibilities = PStr [],
                  confidence_score = PFloat (Finite 0.7)\<rparr>\<rparr>]"
    by (simp add: parse_unified_response_decoded [where loads = loads and data = "PDict obj", OF assms(1,2)])
next
  assume a: "map_of obj ''taste_profile'' = Some (PDict tp)
        \<and> (\<forall>v. map_of tp ''themes'' = Some v \<longrightarrow> is_str_list v)
        \<and> (\<forall>v. map_of tp ''narrative_style'' = Some v \<longrightarrow> is_str v)
        \<and> (\<forall>v. map_of tp ''emotional_tone'' = Some v \<longrightarrow> is_str v)
        \<and> (\<forall>v. map_of tp ''genre_fusion'' = Some v \<longrightarrow> is_str v)
        \<and> (\<forall>v. map_of tp ''character_preferences'' = Some v \<longrightarrow> is_str v)
        \<and> (\<forall>v. map_of tp ''artistic_sensibilities'' = Some v \<longrightarrow> is_str v)
        \<and> (\<forall>v. map_of tp ''confidence_score'' = Some v \<longrightarrow> is_number v)"
  then have "dict_get obj ''taste_profile'' (PDict []) = PDict tp"
    by (simp add: dict_get_present)
  from build_response_profile_of_dict [OF assms(3-6) this] a
  show "parse_unified_response loads (Some content) movies =
         Inr [\<lparr>movie = summary, books = bs,
               taste_profile =
                 \<lparr>themes = dict_get tp ''themes'' (PList []),
                  narrative_style = dict_get tp ''narrative_style'' (PStr []),
                  emotional_tone = dict_get tp ''emotional_tone'' (PStr []),
                  genre_fusion = dict_get tp ''genre_fusion'' (PStr []),
                  character_preferences = dict_get tp ''character_preferences'' (PStr []),
                  artistic_sensibilities = dict_get tp ''artistic_sensibilities'' (PStr []),
                  confidence_score =
                    dict_get tp ''confidence_score'' (PFloat (Finite 0.7))\<rparr>\<rparr>]"
    by (simp add: parse_unified_response_decoded [where loads = loads and data = "PDict obj", OF assms(1,2)])
next
  fix k dflt
  assume "map_of tp k = None"
  then show "dict_get tp k dflt = dflt" by (rule dict_get_absent)
next
  fix k v dflt
  assume "map_of tp k = Some v"
  then show "dict_get tp k dflt = v" by (rule dict_get_present)
qed

theorem taste_profile_defaults_witness:
  "parse_unified_response sample_loads (Some sample_reply) [''Inception''] =
     Inr [\<lparr>movie = ''Based on your interest in Inception'',
           books = [\<lparr>title = PStr ''Dune'', author = PStr ''Frank Herbert'',
                     reason = PStr ''a great book'', taste_match_score = PNone,
                     primary_appeal = PNone\<rparr>],
           taste_profile =
             \<lparr>themes = PList [], narrative_style = PStr [], emotional_tone = PStr [],
              genre_fusion = PStr [], character_preferences = PStr [],
              artistic_sensibilities = PStr [],
              confidence_score = PFloat (Finite 0.7)\<rparr>\<rparr>]
   \<and> parse_unified_response sample_loads (Some with_profile_reply) [''Inception''] =
     Inr [\<lparr>movie = ''Based on your interest in Inception'',
           books = [\<lparr>title = PStr ''Dune'', author = PStr ''Frank Herbert'',
                     reason = PStr [], taste_match_score = PNone,
                     primary_appeal = PNone\<rparr>],
           taste_profile =
             \<lparr>themes = PList [PStr ''fate''], narrative_style = PStr [],
              emotional_tone = PStr ''dark'',
              genre_fusion = PStr [], character_preferences = PStr [],
              artistic_sensibilities = PStr [],
              confidence_score = PFloat (Finite 0.7)\<rparr>\<rparr>]"
proof -
  let ?entry1 = "PDict [(''title'', PStr ''Dune''), (''author'', PStr ''Frank Herbert''),
                        (''reason'', PStr ''a great book'')]"
  let ?obj1 = "[(''unified_recommendations'', PList [?entry1])]"
  let ?book1 = "\<lparr>title = PStr ''Dune'', author = PStr ''Frank Herbert'',
                  reason = PStr ''a great book'', taste_match_score = PNone,
                  primary_appeal = PNone\<rparr>"
  let ?entry2 = "PDict [(''title'', PStr ''Dune''), (''author'', PStr ''Frank Herbert'')]"
  let ?tp = "[(''themes'', PList [PStr ''fate'']), (''emotional_tone'', PStr ''dark'')]"
  let ?obj2 = "[(''taste_profile'', PDict ?tp), (''unified_recommendations'', PList [?entry2])]"
  let ?book2 = "\<lparr>title = PStr ''Dune'', author = PStr ''Frank Herbert'',
                  reason = PStr [], taste_match_score = PNone, primary_appeal = PNone\<rparr>"
  have in1: "decoder_input sample_reply = Some sample_reply"
    by code_simp
  have ld1: "sample_loads sample_reply = Some (PDict ?obj1)"
    by code_simp
  have cb1: "collect_books [?entry1] = Inr [?book1]"
    by (simp add: dict_get_def new_BookRecommendation_def valid_BookRecommendation_def)
  have in2: "decoder_input with_profile_reply = Some with_profile_reply"
    by code_simp
  have ld2: "sample_loads with_profile_reply = Some (PDict ?obj2)"
    by code_simp
  have cb2: "collect_books [?entry2] = Inr [?book2]"
    by (simp add: dict_get_def new_BookRecommendation_def valid_BookRecommendation_def)
  have sm: "create_movie_summary [''Inception''] (PDict [])
      = Inr ''Based on your interest in Inception''"
    by (simp add: create_movie_summary_def)
  have first: "parse_unified_response sample_loads (Some sample_reply) [''Inception''] =
     Inr [\<lparr>movie = ''Based on your interest in Inception'', books = [?book1],
           taste_profile =
             \<lparr>themes = PList [], narrative_style = PStr [], emotional_tone = PStr [],
              genre_fusion = PStr [], character_preferences = PStr [],
              artistic_sensibilities = PStr [],
              confidence_score = PFloat (Finite 0.7)\<rparr>\<rparr>]"
    using taste_profile_defaults
      [where loads = sample_loads and obj = ?obj1 and entries = "[?entry1]" and tp = "[]",
        OF in1 ld1 _ cb1 _ sm]
    by simp
  have second: "parse_unified_response sample_loads (Some with_profile_reply) [''Inception''] =
     Inr [\<lparr>movie = ''Based on your interest in Inception'', books = [?book2],
           taste_profile =
             \<lparr>themes = PList [PStr ''fate''], narrative_style = PStr [],
              emotional_tone = PStr ''dark'',
              genre_fusion = PStr [], character_preferences = PStr [],
              artistic_sensibilities = PStr [],
              confidence_score = PFloat (Finite 0.7)\<rparr>\<rparr>]"
    using taste_profile_defaults
      [where loads = sample_loads and obj = ?obj2 and entries = "[?entry2]" and tp = ?tp,
        OF in2 ld2 _ cb2 _ sm]
    by (simp add: dict_get_def)
  from first second show ?thesis by simp
qed

text \<open>
  C9: on every failure of \<^verbatim>\<open>analyze_taste_profile\<close> (the call raises, the reply has no
  text, or the decoder raises on the text between the first opening and the last
  closing brace) the result is the fixed mapping \<open>analysis_fallback\<close>, whose
  \<^verbatim>\<open>confidence_score\<close> is 0.5. The taste profile of the generation fallback has the
  confidence score 0.6, so the two fallbacks differ. Neither reads any state: the
  analysis fallback is one constant for all clients, decoders, movie lists and
  preferences, and the generation fallback is a function of the movie list of its own
  call alone, so no call of one operation can change what the other returns.
\<close>

theorem analysis_fallback_fixed_and_distinct:
  "(client (analysis_request movies) = Inl e \<longrightarrow>
      analyze_taste_profile client loads movies preferences = analysis_fallback)
   \<and> (client (analysis_request movies) = Inr None \<longrightarrow>
      analyze_taste_profile client loads movies preferences = analysis_fallback)
   \<and> (client (analysis_request movies) = Inr (Some content)
        \<and> loads (py_slice content (py_find content (CHR ''{''))
                   (py_rfind content (CHR ''}'') + 1)) = None \<longrightarrow>
      analyze_taste_profile client loads movies preferences = analysis_fallback)
   \<and> py_get analysis_fallback ''confidence_score'' PNone = Inr (PFloat (Finite 0.5))
   \<and> (create_fallback_response other_movies = Inr rs \<longrightarrow>
      map (confidence_score \<circ> taste_profile) rs = [PFloat (Finite 0.6)]
      \<and> (\<forall>r \<in> set rs. py_get analysis_fallback ''confidence_score'' PNone
                          \<noteq> Inr (confidence_score (taste_profile r))))
   \<and> (other_client (generation_request books_count other_movies other_preferences) = Inl e'
        \<longrightarrow>
      generate_recommendations other_client other_loads books_count other_movies
        other_preferences = create_fallback_response other_movies)"
proof (intro conjI impI)
  assume "client (analysis_request movies) = Inl e"
  then have "analyze_try client loads movies = Inl e"
    by (simp add: analyze_try_def)
  then show "analyze_taste_profile client loads movies preferences = analysis_fallback"
    by (rule analyze_taste_profile_failure)
next
  assume "client (analysis_request movies) = Inr None"
  then have "analyze_try client loads movies = Inl AttributeError"
    by (simp add: analyze_try_def)
  then show "analyze_taste_profile client loads movies preferences = analysis_fallback"
    by (rule analyze_taste_profile_failure)
next
  assume "client (analysis_request movies) = Inr (Some content)
        \<and> loads (py_slice content (py_find content (CHR ''{''))
                   (py_rfind content (CHR ''}'') + 1)) = None"
  then have "analyze_try client loads movies = Inl JSONDecodeError"
    by (simp add: analyze_try_def Let_def)
  then show "analyze_taste_profile client loads movies preferences = analysis_fallback"
    by (rule analyze_taste_profile_failure)
next
  show "py_get analysis_fallback ''confidence_score'' PNone = Inr (PFloat (Finite 0.5))"
    by (simp add: analysis_fallback_def dict_get_def)
next
  assume a: "create_fallback_response other_movies = Inr rs"
  then have "other_movies \<noteq> []"
    by (auto simp: create_fallback_response_Nil)
  from create_fallback_response_Cons [OF this] a
  show "map (confidence_score \<circ> taste_profile) rs = [PFloat (Finite 0.6)]"
    by auto
  then show "\<forall>r \<in> set rs. py_get analysis_fallback ''confidence_score'' PNone
      \<noteq> Inr (confidence_score (taste_profile r))"
    by (auto simp: analysis_fallback_def dict_get_def)
next
  assume "other_client (generation_request books_count other_movies other_preferences)
      = Inl e'"
  then show "generate_recommendations other_client other_loads books_count other_movies
      other_preferences = create_fallback_response other_movies"
    by (rule generate_recommendations_client_raises)
qed

theorem analysis_fallback_fixed_and_distinct_witness:
  "analyze_taste_profile (\<lambda>request. Inl APIError) sample_loads [''Inception''] None
     = analysis_fallback
   \<and> analyze_taste_profile (\<lambda>request. Inr None) sample_loads [''Inception''] None
     = analysis_fallback
   \<and> analyze_taste_profile (replying ''no braces here'') sample_loads [''Inception''] None
     = analysis_fallback
   \<and> map_sum id (map (confidence_score \<circ> taste_profile))
        (create_fallback_response [''Inception'']) = Inr [PFloat (Finite 0.6)]
   \<and> generate_recommendations (\<lambda>request. Inl APIError) sample_loads ''3'' [''Inception''] None
     = create_fallback_response [''Inception'']"
proof -
  obtain rs where rs: "create_fallback_response [''Inception''] = Inr rs"
    using create_fallback_response_Cons [of "[''Inception'']"] by auto
  have loads: "sample_loads (py_slice ''no braces here'' (py_find ''no braces here'' (CHR ''{''))
                   (py_rfind ''no braces here'' (CHR ''}'') + 1)) = None"
    by code_simp
  note t = analysis_fallback_fixed_and_distinct
  show ?thesis
    using rs loads
      t [where client = "\<lambda>request. Inl APIError" and e = APIError and loads = sample_loads
          and movies = "[''Inception'']" and preferences = None
          and other_movies = "[''Inception'']" and rs = rs
          and other_client = "\<lambda>request. Inl APIError" and e' = APIError
          and other_loads = sample_loads and books_count = "''3''"
          and other_preferences = None]
      t [where client = "\<lambda>request. Inr None" and loads = sample_loads
          and movies = "[''Inception'']" and preferences = None]
      t [where client = "replying ''no braces here''" and content = "''no braces here''"
          and loads = sample_loads and movies = "[''Inception'']" and preferences = None]
    by (simp add: replying_def)
qed

text \<open>
  C10: for the empty movie list the fallback path itself raises. The movie summary
  raises IndexError at \<^verbatim>\<open>movies[-1]\<close>, so the fallback response raises it, and since the
  handlers of the parser and of \<open>generate_recommendations\<close> call the fallback, the
  IndexError reaches the caller whatever the chat client and the decoder do.
  \<open>generate_recommendations\<close> returns a result exactly when the movie list is not empty.
\<close>

theorem empty_movie_list_raises:
  "create_movie_summary [] tp = Inl IndexError
   \<and> create_fallback_response [] = Inl IndexError
   \<and> parse_unified_response loads reply [] = Inl IndexError
   \<and> generate_recommendations client loads books_count [] preferences = Inl IndexError
   \<and> ((\<exists>rs. generate_recommendations client loads books_count movies preferences = Inr rs)
        = (movies \<noteq> []))"
proof -
  have "(\<exists>rs. generate_recommendations client loads books_count movies preferences = Inr rs)
        = (movies \<noteq> [])"
    using generate_recommendations_Cons [of movies client loads books_count preferences]
    by (auto simp: generate_recommendations_Nil)
  then show ?thesis
    by (simp add: create_movie_summary_Nil create_fallback_response_Nil
        parse_unified_response_Nil generate_recommendations_Nil)
qed

theorem empty_movie_list_raises_witness:
  "generate_recommendations (\<lambda>request. Inl APIError) (\<lambda>s. None) ''3'' [] None = Inl IndexError
   \<and> generate_recommendations (\<lambda>request. Inr (Some ''{}'')) (\<lambda>s. Some (PDict [])) ''3'' []
        None = Inl IndexError"
  using empty_movie_list_raises [of "PDict []" "\<lambda>s. None" None "\<lambda>request. Inl APIError" "''3''" None "[]"]
    empty_movie_list_raises [of "PDict []" "\<lambda>s. Some (PDict [])" None "\<lambda>request. Inr (Some ''{}'')" "''3''" None "[]"]
  by simp

end
